theory Spec2Isabelle
  imports Main
begin

section \<open>Python strings and values\<close>

text \<open>
  A Python \<open>str\<close> is modelled as a \<open>string\<close> (a list of \<open>char\<close>), one \<open>char\<close> per code
  point, for the code points 0 to 255. \<open>len\<close> is \<open>length\<close>, a string is falsy exactly
  when it is \<open>[]\<close>.
\<close>

definition nl :: char where
  "nl = CHR 0x0A"

text \<open>\<open>str.isspace\<close> on the code points below 256.\<close>

definition isspace :: "char \<Rightarrow> bool" where
  "isspace c = (let n = (of_char c :: nat) in
     (9 \<le> n \<and> n \<le> 13) \<or> (28 \<le> n \<and> n \<le> 32) \<or> n = 133 \<or> n = 160)"

text \<open>\<open>s.strip()\<close>: leading and trailing whitespace removed.\<close>

definition strip :: "string \<Rightarrow> string" where
  "strip s = rev (dropWhile isspace (rev (dropWhile isspace s)))"

definition starts_with :: "string \<Rightarrow> string \<Rightarrow> bool" where
  "starts_with p s = (take (length p) s = p)"

text \<open>\<open>sub in s\<close> for strings.\<close>

fun contains :: "string \<Rightarrow> string \<Rightarrow> bool" where
  "contains sub [] = (sub = [])"
| "contains sub (c # cs) = (starts_with sub (c # cs) \<or> contains sub cs)"

text \<open>
  \<open>s.replace(old, new)\<close>: every non-overlapping occurrence of \<open>old\<close>, found left to
  right, is replaced. With an empty \<open>old\<close> Python puts \<open>new\<close> before every character
  and at the end.
\<close>

fun replace_ne :: "string \<Rightarrow> string \<Rightarrow> string \<Rightarrow> string" where
  "replace_ne old new [] = []"
| "replace_ne old new (c # cs) =
     (if old \<noteq> [] \<and> starts_with old (c # cs)
      then new @ replace_ne old new (drop (length old - 1) cs)
      else c # replace_ne old new cs)"

definition replace :: "string \<Rightarrow> string \<Rightarrow> string \<Rightarrow> string" where
  "replace old new s =
     (if old = [] then new @ concat (map (\<lambda>c. c # new) s) else replace_ne old new s)"

text \<open>
  \<open>s.split(sep)\<close>: the pieces between the non-overlapping occurrences of \<open>sep\<close>, found
  left to right; there is always at least one piece. An empty separator raises
  \<open>ValueError\<close>, which is \<open>None\<close> here. \<open>cur\<close> holds the current piece, reversed.
\<close>

fun split_ne :: "string \<Rightarrow> string \<Rightarrow> string \<Rightarrow> string list" where
  "split_ne sep cur [] = [rev cur]"
| "split_ne sep cur (c # cs) =
     (if sep \<noteq> [] \<and> starts_with sep (c # cs)
      then rev cur # split_ne sep [] (drop (length sep - 1) cs)
      else split_ne sep (c # cur) cs)"

definition split :: "string \<Rightarrow> string \<Rightarrow> string list option" where
  "split sep s = (if sep = [] then None else Some (split_ne sep [] s))"

text \<open>\<open>sep.join(xs)\<close>.\<close>

fun join :: "string \<Rightarrow> string list \<Rightarrow> string" where
  "join sep [] = []"
| "join sep [x] = x"
| "join sep (x # y # ys) = x @ sep @ join sep (y # ys)"

text \<open>\<open>str(n)\<close> for integers: decimal digits, a minus sign for negative numbers.\<close>

fun str_nat :: "nat \<Rightarrow> string" where
  "str_nat n = (if n < 10 then [''0123456789'' ! n]
                else str_nat (n div 10) @ [''0123456789'' ! (n mod 10)])"

declare str_nat.simps [simp del]

definition str_int :: "int \<Rightarrow> string" where
  "str_int i = (if i < 0 then CHR ''-'' # str_nat (nat (- i)) else str_nat (nat i))"

text \<open>
  The values that \<open>eval\<close> hands back: \<open>None\<close>, an integer, or any other object, which
  is kept as the text \<open>str\<close> gives for it. The model takes \<open>str\<close> to return
  on every value handed back: an object whose \<open>__str__\<close> raises is no value of it.
\<close>

datatype pyval = PyNone | PyInt int | PyObj string

fun str_val :: "pyval \<Rightarrow> string" where
  "str_val PyNone = ''None''"
| "str_val (PyInt i) = str_int i"
| "str_val (PyObj s) = s"

section \<open>JSON values and the exceptions that leave the program\<close>

text \<open>
  What \<open>json.loads\<close> returns for the arguments of a tool call, and so what the
  \<open>code\<close> handed to \<open>run_code_tool\<close> can be: any JSON value, a string when the
  service keeps to the schema of the tool. A number is kept as an integer; the
  program only ever tests a number for being zero, so a float is represented by an
  integer that is zero when it is. An object is the dictionary \<open>json.loads\<close> builds,
  one entry for each key.
\<close>

datatype json =
    JNull
  | JBool bool
  | JNum int
  | JStr string
  | JArr "json list"
  | JObj "(string \<times> json) list"

text \<open>The truth value Python gives a value in \<open>if v\<close> and \<open>not v\<close>.\<close>

fun truthy :: "json \<Rightarrow> bool" where
  "truthy JNull = False"
| "truthy (JBool b) = b"
| "truthy (JNum n) = (n \<noteq> 0)"
| "truthy (JStr s) = (s \<noteq> [])"
| "truthy (JArr xs) = (xs \<noteq> [])"
| "truthy (JObj kv) = (kv \<noteq> [])"

text \<open>\<open>len(v)\<close>: \<open>None\<close> is the \<open>TypeError\<close> of a value without a length.\<close>

fun py_len :: "json \<Rightarrow> nat option" where
  "py_len (JStr s) = Some (length s)"
| "py_len (JArr xs) = Some (length xs)"
| "py_len (JObj kv) = Some (length kv)"
| "py_len _ = None"

text \<open>\<open>v.strip()\<close>: \<open>None\<close> is the \<open>AttributeError\<close> of a value that is not a string.\<close>

fun py_strip :: "json \<Rightarrow> string option" where
  "py_strip (JStr s) = Some (strip s)"
| "py_strip _ = None"

fun is_text :: "json \<Rightarrow> bool" where
  "is_text (JStr s) = True"
| "is_text _ = False"

text \<open>An exception caught as \<open>e\<close>: \<open>type(e).__name__\<close> and \<open>str(e)\<close>.\<close>

datatype exn = Exn (exn_type: string) (exn_msg: string)

text \<open>
  How a call of the program ends when it does not return: with one of the
  exceptions that nothing in the program catches, or never. \<open>Escaped e\<close> is an
  exception that is not a subclass of \<open>Exception\<close> (\<open>SystemExit\<close>,
  \<open>KeyboardInterrupt\<close>), raised while a candidate or an assertion runs, so that the
  handlers of \<open>execute_code\<close> let it through, or raised by a call of the service, so
  that the handlers of \<open>fix_code\<close> do; \<open>Diverged\<close> is a run or a call that never
  ends, the \<open>timeout\<close> of \<open>CodeExecutor\<close> being stored and never enforced.
\<close>

datatype error =
    AttributeError
  | TypeError
  | JSONDecodeError
  | Escaped exn
  | Diverged

section \<open>The host interpreter\<close>

text \<open>
  \<open>CodeExecutor\<close> hands the candidate to the Python interpreter it runs in: \<open>compile\<close>,
  \<open>ast.parse\<close>, \<open>exec\<close> and \<open>eval\<close>. The interpreter is a parameter of the model, a record
  of functions giving the outcome of each of these calls, so that every property below
  holds for whatever the interpreter answers.
\<close>

text \<open>
  \<open>compile(code, '<string>', 'exec')\<close> on a string: it returns, or raises
  \<open>SyntaxError\<close> with \<open>e.lineno\<close>, \<open>e.offset\<close> and \<open>e.msg\<close> (the line and the column
  are \<open>None\<close> when the error carries none), or raises another exception with its
  \<open>str(e)\<close>.
\<close>

datatype compile_outcome =
    CompileOk
  | CompileSyntaxError "nat option" "nat option" string
  | CompileError string

text \<open>
  \<open>ast.parse(code)\<close>: a tree, of which the model keeps the name of the first
  \<open>FunctionDef\<close> node that \<open>ast.walk\<close> meets (if there is one), or \<open>SyntaxError\<close> with
  its \<open>str(e)\<close>.
\<close>

datatype parse_outcome =
    ParseOk "string option"
  | ParseSyntaxError string

text \<open>
  \<open>exec(code, namespace)\<close> under the redirected output streams. It returns, leaving
  the namespace \<open>'ns\<close> and the captured standard output; or it raises an
  \<open>Exception\<close>, of which the model keeps the exception, \<open>traceback.format_exc()\<close> and
  the captured output; or it raises an exception that is not an \<open>Exception\<close>; or it
  never returns.
\<close>

datatype 'ns exec_outcome =
    ExecOk 'ns string
  | ExecFault exn string string
  | ExecEscapes exn
  | ExecHangs

text \<open>\<open>exec(test, test_namespace)\<close> for one test case, with the same four ways to end.\<close>

datatype test_outcome =
    TestPassed
  | TestAssertionError
  | TestRaised exn
  | TestEscapes exn
  | TestHangs

text \<open>
  \<open>eval(expression, test_namespace)\<close> inside \<open>try: ... except: pass\<close>: a value, any
  exception (the bare \<open>except\<close> catches them all), or a run that never ends.
\<close>

datatype eval_outcome =
    EvalValue pyval
  | EvalRaised
  | EvalHangs

text \<open>
  What a name of the namespace handed to \<open>exec\<close> is bound to: one built-in function,
  or the whole \<open>builtins\<close> module of the host, given by the names it defines.
\<close>

datatype binding = Builtin string | BuiltinsModule "string list"

type_synonym namespace = "(string \<times> binding) list"

text \<open>
  \<open>py_exec_test ns test\<close> runs \<open>test\<close> in a copy of the namespace \<open>ns\<close> that the
  candidate left; \<open>py_eval ns test e\<close> evaluates the expression \<open>e\<close> in that copy
  after \<open>test\<close> has failed in it.
\<close>

record 'ns python =
  py_builtins :: "string list"
  py_compile :: "string \<Rightarrow> compile_outcome"
  py_ast_parse :: "string \<Rightarrow> parse_outcome"
  py_exec :: "namespace \<Rightarrow> string \<Rightarrow> 'ns exec_outcome"
  py_in_namespace :: "'ns \<Rightarrow> string \<Rightarrow> bool"
  py_exec_test :: "'ns \<Rightarrow> string \<Rightarrow> test_outcome"
  py_eval :: "'ns \<Rightarrow> string \<Rightarrow> string \<Rightarrow> eval_outcome"

section \<open>The executor (\<open>src/executor.py\<close>)\<close>

text \<open>
  The namespace \<open>execute_code\<close> builds for the candidate: the host's \<open>__builtins__\<close>
  and twenty built-in functions under their own names.
\<close>

definition initial_namespace :: "'ns python \<Rightarrow> namespace" where
  "initial_namespace py =
     (''__builtins__'', BuiltinsModule (py_builtins py)) #
     map (\<lambda>n. (n, Builtin n))
       [''print'', ''len'', ''range'', ''list'', ''dict'', ''set'', ''tuple'', ''str'',
        ''int'', ''float'', ''bool'', ''abs'', ''max'', ''min'', ''sum'', ''sorted'',
        ''enumerate'', ''zip'', ''map'', ''filter'']"

text \<open>
  Python's rule for a global name in code run by \<open>exec(code, globals)\<close>: the name is
  looked up in \<open>globals\<close>, then among the attributes of \<open>globals['__builtins__']\<close>.
  This is the language's rule, not code of the repository; it says which names the
  candidate can reach.
\<close>

definition lookup_name :: "namespace \<Rightarrow> string \<Rightarrow> binding option" where
  "lookup_name ns name =
     (case map_of ns name of
        Some b \<Rightarrow> Some b
      | None \<Rightarrow>
         (case map_of ns ''__builtins__'' of
            Some (BuiltinsModule names) \<Rightarrow>
              if name \<in> set names then Some (Builtin name) else None
          | _ \<Rightarrow> None))"

text \<open>
  An entry of \<open>failed_tests\<close>. The keys \<open>expected\<close> and \<open>actual\<close> exist only in the
  entries of the \<open>AssertionError\<close> branch: \<open>None\<close> is an absent key, \<open>Some PyNone\<close>
  the key bound to Python's \<open>None\<close>.
\<close>

record failed_test =
  ft_number :: nat
  ft_test :: string
  ft_status :: string
  ft_error :: string
  ft_type :: string
  ft_expected :: "pyval option"
  ft_actual :: "pyval option"

record passed_test =
  pt_number :: nat
  pt_test :: string
  pt_status :: string

text \<open>The dictionary \<open>execute_code\<close> returns.\<close>

record exec_result =
  r_success :: bool
  r_output :: string
  r_error :: "string option"
  r_tests_passed :: nat
  r_tests_total :: nat
  r_failed_tests :: "failed_test list"
  r_passed_tests :: "passed_test list"

text \<open>
  Lines 114 to 138: the values of both sides of a failed assertion
  \<open>assert call == expected\<close>. Each \<open>eval\<close> sits in its own \<open>try\<close>, and a value that
  could not be computed stays \<open>None\<close>.
\<close>

fun eval_value :: "eval_outcome \<Rightarrow> pyval" where
  "eval_value (EvalValue v) = v"
| "eval_value _ = PyNone"

definition actual_expected ::
  "'ns python \<Rightarrow> 'ns \<Rightarrow> string \<Rightarrow> error + pyval \<times> pyval" where
  "actual_expected py ns test =
     (if contains ''=='' test then
        (case split ''=='' (replace ''assert '' [] test) of
           Some [call_part, expected_part] \<Rightarrow>
             if py_eval py ns test (strip call_part) = EvalHangs then Inl Diverged
             else if py_eval py ns test (strip expected_part) = EvalHangs then Inl Diverged
             else Inr (eval_value (py_eval py ns test (strip call_part)),
                       eval_value (py_eval py ns test (strip expected_part)))
         | _ \<Rightarrow> Inr (PyNone, PyNone))
      else Inr (PyNone, PyNone))"

text \<open>
  One round of the loop over \<open>enumerate(test_cases)\<close> (lines 86 to 188). \<open>func_name\<close>
  is what the walk over \<open>ast.parse(code)\<close> found; the parse succeeded once before
  the loop, so it succeeds again here. The handler of line 164 catches an
  \<open>AssertionError\<close> that the inner handler has caught already, and is never entered.
  An exception of the assertion that is not an \<open>Exception\<close> passes the handlers of
  lines 111, 164 and 173 and the one of line 200.
\<close>

definition run_test ::
  "'ns python \<Rightarrow> 'ns \<Rightarrow> string option \<Rightarrow> exec_result \<Rightarrow> nat \<times> string
     \<Rightarrow> error + exec_result" where
  "run_test py ns func_name result it =
     (let i = fst it; test = snd it in
      if (case func_name of None \<Rightarrow> False | Some f \<Rightarrow> f \<noteq> [] \<and> py_in_namespace py ns f)
      then
        (case py_exec_test py ns test of
           TestPassed \<Rightarrow>
             Inr (result\<lparr>r_tests_passed := r_tests_passed result + 1,
                    r_passed_tests := r_passed_tests result @
                      [\<lparr>pt_number = i + 1, pt_test = test, pt_status = ''PASSED''\<rparr>]\<rparr>)
         | TestAssertionError \<Rightarrow>
             (case actual_expected py ns test of
                Inl e \<Rightarrow> Inl e
              | Inr values \<Rightarrow>
                 (let actual_value = fst values;
                      expected_value = snd values;
                      error_msg =
                        (if actual_value \<noteq> PyNone \<and> expected_value \<noteq> PyNone
                         then ''Expected '' @ str_val expected_value @ '', but got '' @
                              str_val actual_value
                         else ''Assertion failed'')
                  in Inr (result\<lparr>r_failed_tests := r_failed_tests result @
                       [\<lparr>ft_number = i + 1, ft_test = test, ft_status = ''FAILED'',
                         ft_error = error_msg, ft_type = ''AssertionError'',
                         ft_expected = Some expected_value,
                         ft_actual = Some actual_value\<rparr>]\<rparr>)))
         | TestRaised e \<Rightarrow>
             (let error_type = exn_type e;
                  error_msg =
                    (if contains ''SyntaxError'' error_type \<and>
                        contains ''unexpected EOF'' (exn_msg e)
                     then ''INCOMPLETE TEST CASE - The test assertion appears to be cut off or malformed: ''
                          @ exn_msg e
                     else exn_msg e)
              in Inr (result\<lparr>r_failed_tests := r_failed_tests result @
                   [\<lparr>ft_number = i + 1, ft_test = test, ft_status = ''FAILED'',
                     ft_error = error_type @ '': '' @ error_msg, ft_type = error_type,
                     ft_expected = None, ft_actual = None\<rparr>]\<rparr>))
         | TestEscapes e \<Rightarrow> Inl (Escaped e)
         | TestHangs \<Rightarrow> Inl Diverged)
      else
        Inr (result\<lparr>r_failed_tests := r_failed_tests result @
          [\<lparr>ft_number = i + 1, ft_test = test, ft_status = ''FAILED'',
            ft_error = ''Function not found in code'', ft_type = ''ExecutionError'',
            ft_expected = None, ft_actual = None\<rparr>]\<rparr>))"

text \<open>The loop \<open>for i, test in enumerate(test_cases)\<close>; it stops where a test does not return.\<close>

fun run_tests ::
  "'ns python \<Rightarrow> 'ns \<Rightarrow> string option \<Rightarrow> (nat \<times> string) list \<Rightarrow> exec_result
     \<Rightarrow> error + exec_result" where
  "run_tests py ns func_name [] result = Inr result"
| "run_tests py ns func_name (it # rest) result =
     (case run_test py ns func_name result it of
        Inl e \<Rightarrow> Inl e
      | Inr result' \<Rightarrow> run_tests py ns func_name rest result')"

text \<open>Lines 191 to 198: the error text built from the first five failures.\<close>

definition failure_summary :: "failed_test list \<Rightarrow> string" where
  "failure_summary fs =
     join [nl]
       (concat (map (\<lambda>f. [''Test '' @ str_nat (ft_number f) @ '': '' @ ft_test f,
                           ''  '' @ ft_error f]) (take 5 fs))
        @ (if length fs > 5
           then [''  ... and '' @ str_int (int (length fs) - 5) @ '' more failures'']
           else []))"

text \<open>
  \<open>execute_code(code, test_cases)\<close>. On a \<open>code\<close> that is not a string,
  \<open>ast.parse\<close> raises \<open>TypeError\<close>, which line 42 does not catch.
\<close>

definition execute_code ::
  "'ns python \<Rightarrow> json \<Rightarrow> string list \<Rightarrow> error + exec_result" where
  "execute_code py code test_cases =
     (let result = \<lparr>r_success = False, r_output = [], r_error = None, r_tests_passed = 0,
                     r_tests_total = 0, r_failed_tests = [], r_passed_tests = []\<rparr>
      in case code of
           JStr source \<Rightarrow>
            (case py_ast_parse py source of
               ParseSyntaxError msg \<Rightarrow> Inr (result\<lparr>r_error := Some (''Syntax Error: '' @ msg)\<rparr>)
             | ParseOk func_name \<Rightarrow>
                (case py_exec py (initial_namespace py) source of
                   ExecFault e tb out \<Rightarrow>
                     Inr (result\<lparr>r_error := Some (exn_type e @ '': '' @ exn_msg e @ [nl] @ tb),
                            r_output := out\<rparr>)
                 | ExecEscapes e \<Rightarrow> Inl (Escaped e)
                 | ExecHangs \<Rightarrow> Inl Diverged
                 | ExecOk ns out \<Rightarrow>
                     (let result1 = result\<lparr>r_success := True, r_output := out\<rparr> in
                      if test_cases \<noteq> [] then
                        (case run_tests py ns func_name (enumerate 0 test_cases)
                                (result1\<lparr>r_tests_total := length test_cases\<rparr>) of
                           Inl e \<Rightarrow> Inl e
                         | Inr result2 \<Rightarrow>
                             Inr (if r_failed_tests result2 \<noteq> []
                                  then result2\<lparr>r_error :=
                                         Some (failure_summary (r_failed_tests result2))\<rparr>
                                  else result2))
                      else Inr result1)))
         | _ \<Rightarrow> Inl TypeError)"

text \<open>\<open>str(e.lineno)\<close>.\<close>

definition str_lineno :: "nat option \<Rightarrow> string" where
  "str_lineno lineno = (case lineno of None \<Rightarrow> ''None'' | Some n \<Rightarrow> str_nat n)"

text \<open>
  \<open>validate_code(code)\<close>. On a \<open>code\<close> that is not a string, \<open>compile\<close> raises
  \<open>TypeError\<close>, which the second handler turns into a validation error.
\<close>

definition validate_code :: "'ns python \<Rightarrow> json \<Rightarrow> bool \<times> string" where
  "validate_code py code =
     (case code of
        JStr source \<Rightarrow>
          (case py_compile py source of
             CompileOk \<Rightarrow> (True, [])
           | CompileSyntaxError lineno offset msg \<Rightarrow>
               (False, ''Syntax Error at line '' @ str_lineno lineno @ '': '' @ msg)
           | CompileError msg \<Rightarrow> (False, ''Validation Error: '' @ msg))
      | _ \<Rightarrow>
          (False, ''Validation Error: compile() arg 1 must be a string, bytes or AST object''))"

section \<open>The observer and the tool (\<open>src/agent.py\<close>)\<close>

text \<open>
  An entry of \<open>AgentObserver.logs\<close>. The time stamps and the \<open>data\<close> field (never
  passed) are left out, and so is everything the code only prints.
\<close>

record log_entry =
  action :: string
  level :: string
  message :: string

definition log :: "string \<Rightarrow> string \<Rightarrow> string \<Rightarrow> log_entry list \<Rightarrow> log_entry list" where
  "log a m l entries = entries @ [\<lparr>action = a, level = l, message = m\<rparr>]"

text \<open>
  The dictionary \<open>run_code_tool\<close> returns. A key that the dictionary does not have is
  \<open>None\<close> (\<open>False\<close> for \<open>duplicate_submission\<close>, which is only ever bound to \<open>True\<close>).
  \<open>failed_tests\<close> keeps the keys \<open>test\<close> and \<open>error\<close> of each failure.
\<close>

record verdict =
  success :: bool
  v_error :: "string option"
  v_message :: "string option"
  v_tests_passed :: "nat option"
  v_tests_total :: "nat option"
  v_failed_count :: "nat option"
  v_failed_tests :: "(string \<times> string) list option"
  v_duplicate_submission :: bool

text \<open>\<open>{'success': False, 'error': e}\<close>, returned at four places.\<close>

definition failure :: "string \<Rightarrow> verdict" where
  "failure e =
     \<lparr>success = False, v_error = Some e, v_message = None, v_tests_passed = None,
      v_tests_total = None, v_failed_count = None, v_failed_tests = None,
      v_duplicate_submission = False\<rparr>"

text \<open>
  \<open>tool_result.get('tests_passed', 0)\<close> and \<open>tool_result.get('tests_total', 0)\<close>, as
  \<open>fix_code\<close> reads the counts of a verdict.
\<close>

definition tests_passed :: "verdict \<Rightarrow> nat" where
  "tests_passed v = (case v_tests_passed v of None \<Rightarrow> 0 | Some n \<Rightarrow> n)"

definition tests_total :: "verdict \<Rightarrow> nat" where
  "tests_total v = (case v_tests_total v of None \<Rightarrow> 0 | Some n \<Rightarrow> n)"

text \<open>
  A call that a session makes to the outside: the \<open>n\<close>-th call of
  \<open>chat.completions.create\<close>, \<open>validate_code(code)\<close>, or
  \<open>execute_code(code, tests)\<close>.
\<close>

datatype event = Requested nat | Validated json | Executed json "string list"

text \<open>
  What \<open>run_code_tool\<close> reads and writes besides its arguments: the module global
  \<open>_previous_code\<close> and the observer's log (\<open>_observer\<close> is the agent's observer in
  every call that \<open>fix_code\<close> makes). \<open>events\<close> is not a variable of the source: it
  records, in order, the calls made to the service and to the executor, so that a
  property can say that a candidate was or was not validated or run, and what came
  after. \<open>_test_cases\<close> does not change during a session and is an argument.
\<close>

record tool_state =
  previous_code :: "json option"
  logs :: "log_entry list"
  events :: "event list"

definition duplicate_warning :: string where
  "duplicate_warning =
     ''WARNING: You submitted the EXACT SAME code as your previous attempt!''
     @ [nl, nl] @ ''You're stuck in a loop! The tests are failing, which means your fix didn't work.''
     @ [nl, nl] @ ''Try a DIFFERENT approach:''
     @ [nl] @ ''  - Re-read the test failures carefully''
     @ [nl] @ ''  - Think about what ELSE could cause those failures''
     @ [nl] @ ''  - Try a completely different fix''"

text \<open>Lines 157 to 183: the text describing the first three failures.\<close>

definition failure_details :: "nat \<Rightarrow> nat \<Rightarrow> failed_test list \<Rightarrow> string" where
  "failure_details passed total_n failed_tests =
     join [nl]
       ((if passed > 0 then [str_nat passed @ '' test(s) passed''] else [])
        @ [[nl] @ str_int (int total_n - int passed) @ '' test(s) FAILED:'']
        @ concat (map (\<lambda>failed.
             [[nl] @ ''  Test #'' @ str_nat (ft_number failed) @ '': '' @ ft_test failed]
             @ (case (ft_actual failed, ft_expected failed) of
                  (Some a, Some e) \<Rightarrow>
                    if a \<noteq> PyNone
                    then [''  Expected: '' @ str_val e, ''  Got:      '' @ str_val a,
                          ''  Values don't match!'']
                    else [''  '' @ ft_error failed]
                | _ \<Rightarrow> [''  '' @ ft_error failed]))
             (take 3 failed_tests))
        @ (if length failed_tests > 3
           then [[nl] @ ''  ... and '' @ str_int (int (length failed_tests) - 3)
                 @ '' more test(s) failed'']
           else [])
        @ [[nl] @ ''DEBUGGING HINT:'',
           ''  - Compare the tests that PASS vs those that FAIL'',
           ''  - Look for patterns in the inputs/outputs''])"

text \<open>
  Line 87, \<open>_previous_code is not None and code.strip() == _previous_code.strip()\<close>:
  \<open>code.strip()\<close> is evaluated first, and either \<open>strip\<close> raises \<open>AttributeError\<close> on
  a value that is not a string.
\<close>

definition same_as_previous :: "tool_state \<Rightarrow> json \<Rightarrow> error + bool" where
  "same_as_previous s code =
     (case previous_code s of
        None \<Rightarrow> Inr False
      | Some previous \<Rightarrow>
         (case py_strip code of
            None \<Rightarrow> Inl AttributeError
          | Some c \<Rightarrow>
             (case py_strip previous of
                None \<Rightarrow> Inl AttributeError
              | Some p \<Rightarrow> Inr (c = p))))"

text \<open>
  Lines 139 to 208: the run of a validated candidate against the test cases, or
  against \<open>["pass"]\<close> when there are none. A run that does not return leaves
  \<open>run_code_tool\<close> the same way.
\<close>

definition run_against_tests ::
  "'ns python \<Rightarrow> string list \<Rightarrow> json \<Rightarrow> tool_state \<Rightarrow> (error + verdict) \<times> tool_state" where
  "run_against_tests py test_cases code s3 =
     (if test_cases \<noteq> [] then
        (let s4 = s3\<lparr>events := events s3 @ [Executed code test_cases]\<rparr> in
         case execute_code py code test_cases of
           Inl e \<Rightarrow> (Inl e, s4)
         | Inr result \<Rightarrow>
            (let passed = r_tests_passed result;
                 total_n = r_tests_total result;
                 failed_tests = r_failed_tests result
             in if passed = total_n \<and> passed > 0 then
                  (let msg = ''SUCCESS! All '' @ str_nat total_n @ '' tests passed!'' in
                   (Inr \<lparr>success = True, v_error = None, v_message = Some msg,
                         v_tests_passed = Some passed, v_tests_total = Some total_n,
                         v_failed_count = None, v_failed_tests = None,
                         v_duplicate_submission = False\<rparr>,
                    s4\<lparr>logs := log ''ALL_PASS'' msg ''SUCCESS'' (logs s4)\<rparr>))
                else
                  (Inr \<lparr>success = False,
                        v_error = Some (failure_details passed total_n failed_tests),
                        v_message = None,
                        v_tests_passed = Some passed, v_tests_total = Some total_n,
                        v_failed_count = Some (length failed_tests),
                        v_failed_tests = Some (map (\<lambda>f. (ft_test f, ft_error f)) failed_tests),
                        v_duplicate_submission = False\<rparr>,
                   s4\<lparr>logs := log ''TESTS_FAILED''
                                (str_nat passed @ ''/'' @ str_nat total_n @ '' passed'') ''ERROR''
                                (logs s4)\<rparr>)))
      else
        (let s4 = s3\<lparr>events := events s3 @ [Executed code [''pass'']]\<rparr> in
         case execute_code py code [''pass''] of
           Inl e \<Rightarrow> (Inl e, s4)
         | Inr result \<Rightarrow>
            (case r_error result of
               Some e \<Rightarrow>
                 if e \<noteq> [] then
                   (Inr (failure (''Runtime Error:'' @ [nl] @ e)),
                    s4\<lparr>logs := log ''RUNTIME_ERROR'' e ''ERROR'' (logs s4)\<rparr>)
                 else
                   (Inr \<lparr>success = True, v_error = None,
                         v_message = Some ''Code runs without errors!'',
                         v_tests_passed = None, v_tests_total = None,
                         v_failed_count = None, v_failed_tests = None,
                         v_duplicate_submission = False\<rparr>,
                    s4\<lparr>logs := log ''NO_ERROR'' ''Code runs without errors!'' ''SUCCESS''
                                 (logs s4)\<rparr>)
             | None \<Rightarrow>
                 (Inr \<lparr>success = True, v_error = None,
                       v_message = Some ''Code runs without errors!'',
                       v_tests_passed = None, v_tests_total = None,
                       v_failed_count = None, v_failed_tests = None,
                       v_duplicate_submission = False\<rparr>,
                  s4\<lparr>logs := log ''NO_ERROR'' ''Code runs without errors!'' ''SUCCESS''
                               (logs s4)\<rparr>))))"

text \<open>
  \<open>run_code_tool(code, reason)\<close>; \<open>reason\<close> is only printed. The guards come in the
  order of the source: falsy code, duplicate of \<open>_previous_code\<close>, then the store of
  \<open>_previous_code\<close>, the log entries (the second formats \<open>len(code)\<close>, a
  \<open>TypeError\<close> on a value without a length), validation, and the run against
  the test cases.
\<close>

definition run_code_tool ::
  "'ns python \<Rightarrow> string list \<Rightarrow> json \<Rightarrow> json \<Rightarrow> tool_state \<Rightarrow> (error + verdict) \<times> tool_state" where
  "run_code_tool py test_cases code reason s =
     (if \<not> truthy code then (Inr (failure ''No code provided''), s)
      else
        (case same_as_previous s code of
           Inl e \<Rightarrow> (Inl e, s)
         | Inr True \<Rightarrow>
             (Inr ((failure duplicate_warning)\<lparr>v_duplicate_submission := True\<rparr>),
              s\<lparr>logs := log ''DUPLICATE_CODE'' ''Same code submitted twice!'' ''ERROR'' (logs s)\<rparr>)
         | Inr False \<Rightarrow>
             (let s1 = s\<lparr>previous_code := Some code\<rparr>;
                  s2 = s1\<lparr>logs := log ''TOOL_CALLED'' ''LLM CALLED run_code TOOL!'' ''TOOL''
                                     (logs s1)\<rparr>
              in case py_len code of
                   None \<Rightarrow> (Inl TypeError, s2)
                 | Some n \<Rightarrow>
                    (let s3 = s2\<lparr>logs := log ''TOOL_EXECUTE''
                                   (''Running code ('' @ str_nat n @ '' chars)...'') ''TOOL''
                                   (logs s2),
                                 events := events s2 @ [Validated code]\<rparr>;
                         is_valid = fst (validate_code py code);
                         syntax_error = snd (validate_code py code)
                     in if \<not> is_valid then
                          (Inr (failure (''Syntax Error:'' @ [nl] @ syntax_error)),
                           s3\<lparr>logs := log ''SYNTAX_ERROR'' syntax_error ''ERROR'' (logs s3)\<rparr>)
                        else run_against_tests py test_cases code s3))))"

section \<open>The repair loop (\<open>TogetherCodeFixAgent.fix_code\<close>)\<close>

text \<open>
  A tool call of the service's answer. \<open>tc_arguments\<close> is \<open>json.loads\<close> of the
  argument text: \<open>None\<close> when that raises \<open>JSONDecodeError\<close>, and otherwise the
  value it returns, an object with string values only if the service keeps to the
  schema of the tool.
\<close>

record tool_call =
  tc_id :: string
  tc_name :: string
  tc_arguments :: "json option"

text \<open>\<open>response.choices[0].message\<close>; no tool calls is the empty list.\<close>

record assistant_message =
  content :: "string option"
  tool_calls :: "tool_call list"

text \<open>
  The entries of \<open>messages\<close>. The three prompts are named by a constructor each,
  with the data the source formats into them, and their fixed text is left out;
  a tool message holds the verdict that the source serialises with \<open>json.dumps\<close>.
\<close>

datatype msg =
    SystemPrompt
  | UserPrompt string "string list"
  | ForcePrompt
  | AssistantMsg assistant_message
  | ToolMsg string string verdict

text \<open>
  One call of \<open>chat.completions.create\<close>: the client used, the messages, and the
  temperature in tenths. The service is a parameter. The \<open>n\<close>-th call of the
  session returns a response, of which the program reads the message of the first
  choice; or it raises an \<open>Exception\<close> (its \<open>str(e)\<close>), which the handlers of lines
  474 and 492 catch; or it raises an exception that is not an \<open>Exception\<close>, which
  they let through; or it never returns, no time limit being given to the call.
\<close>

record request =
  req_client :: nat
  req_messages :: "msg list"
  req_temperature :: nat

datatype api_outcome =
    ApiResponse assistant_message
  | ApiError string
  | ApiEscapes exn
  | ApiHangs

type_synonym service = "nat \<Rightarrow> request \<Rightarrow> api_outcome"

text \<open>
  The fields of the agent that \<open>fix_code\<close> reads: \<open>max_iterations\<close>, \<open>model_name\<close>,
  \<open>verbose\<close>, the number of clients (the constructor refuses an empty key list), the
  round-robin index and the observer's log as they are when the call starts.
\<close>

record agent =
  max_iterations :: nat
  model_name :: string
  verbose :: bool
  clients :: nat
  client_index :: nat
  observer_logs :: "log_entry list"

definition default_max_iterations :: nat where
  "default_max_iterations = 10"

text \<open>
  The state of one call of \<open>fix_code\<close>: its local variables, the agent's round-robin
  index, and the state of the tool. \<open>api_calls\<close> is not a variable of the source: it
  counts the calls of \<open>chat.completions.create\<close> made so far.
\<close>

record session =
  messages :: "msg list"
  tool_was_called :: bool
  final_code :: "json option"
  consecutive_failures :: nat
  current_client_index :: nat
  api_calls :: nat
  tool :: tool_state

text \<open>How a block of the loop body is left.\<close>

datatype flow = Return json | Raise error | Break | Next

definition max_retries :: nat where
  "max_retries = 3"

definition api_retry_count :: nat where
  "api_retry_count = 3"

text \<open>Lines 452 to 457, in tenths.\<close>

definition temperature :: "nat \<Rightarrow> nat \<Rightarrow> nat" where
  "temperature iteration_count failures =
     (if iteration_count < 3 then 7 else if failures \<ge> 3 then 3 else 5)"

text \<open>
  What leaves the \<open>try\<close> block of a retry attempt: an \<open>Exception\<close> of the service,
  which the handler of line 492 catches, or an end that no handler catches.
\<close>

datatype raised = Caught string | Uncaught error

text \<open>
  Lines 464 to 482, the loop \<open>for api_attempt in range(api_retry_count)\<close> over the
  remaining values of \<open>api_attempt\<close>. \<open>Inr (Some m)\<close>: the call answered and the loop
  was left by \<open>break\<close>; \<open>Inl (Caught e)\<close>: the last attempt failed and its
  exception is raised again; \<open>Inl (Uncaught e)\<close>: a call did not come back;
  \<open>Inr None\<close>: the loop ran out, \<open>response\<close> is still \<open>None\<close>. The second component
  is the count of calls made.
\<close>

fun api_loop ::
  "service \<Rightarrow> request \<Rightarrow> nat list \<Rightarrow> nat \<Rightarrow> (raised + assistant_message option) \<times> nat" where
  "api_loop svc req [] n = (Inr None, n)"
| "api_loop svc req (api_attempt # rest) n =
     (case svc n req of
        ApiResponse m \<Rightarrow> (Inr (Some m), Suc n)
      | ApiError e \<Rightarrow>
          if api_attempt < api_retry_count - 1 then api_loop svc req rest (Suc n)
          else (Inl (Caught e), Suc n)
      | ApiEscapes e \<Rightarrow> (Inl (Uncaught (Escaped e)), Suc n)
      | ApiHangs \<Rightarrow> (Inl (Uncaught Diverged), Suc n))"

text \<open>\<open>get_next_client\<close>: the index of the client handed out, and the index advanced.\<close>

definition get_next_client :: "nat \<Rightarrow> session \<Rightarrow> nat \<times> session" where
  "get_next_client n_clients st =
     (current_client_index st,
      st\<lparr>current_client_index := (current_client_index st + 1) mod n_clients\<rparr>)"

text \<open>\<open>self.observer.log(action, message, level)\<close> on the state of a session.\<close>

definition observe :: "string \<Rightarrow> string \<Rightarrow> string \<Rightarrow> session \<Rightarrow> session" where
  "observe a m l st = st\<lparr>tool := (tool st)\<lparr>logs := log a m l (logs (tool st))\<rparr>\<rparr>"

text \<open>
  Lines 418 to 490, the body of the \<open>try\<close> of one retry attempt: the next client
  is taken, \<open>response\<close> is set to \<open>None\<close>, and the calls are made. \<open>Inr response\<close>: the
  block ran to its \<open>break\<close>, with the value of \<open>response\<close>; \<open>Inl e\<close>: it raised.
\<close>

definition try_request ::
  "service \<Rightarrow> nat \<Rightarrow> nat \<Rightarrow> session \<Rightarrow> (raised + assistant_message option) \<times> session" where
  "try_request svc n_clients iteration_count st =
     (let current_client = fst (get_next_client n_clients st);
          st1 = snd (get_next_client n_clients st);
          req = \<lparr>req_client = current_client, req_messages = messages st1,
                 req_temperature = temperature iteration_count (consecutive_failures st1)\<rparr>;
          answer = api_loop svc req [0..<api_retry_count] (api_calls st1)
      in (fst answer,
          st1\<lparr>api_calls := snd answer,
              tool := (tool st1)\<lparr>events := events (tool st1) @
                map Requested [api_calls st1..<snd answer]\<rparr>\<rparr>))"

text \<open>
  How the loop \<open>for retry_attempt in range(max_retries)\<close> (lines 417 to 530) ends:
  by a \<open>break\<close>, with the value \<open>response\<close> then has; by running out, in which
  case the \<open>else\<close> branch of the \<open>for\<close> statement runs; or by a call of the service
  that did not come back.
\<close>

datatype retry_exit = RetryBreak "assistant_message option" | RetryElse | RetryRaise error

fun retry_loop ::
  "service \<Rightarrow> nat \<Rightarrow> nat \<Rightarrow> nat list \<Rightarrow> session \<Rightarrow> retry_exit \<times> session" where
  "retry_loop svc n_clients iteration_count [] st = (RetryElse, st)"
| "retry_loop svc n_clients iteration_count (retry_attempt # rest) st =
     (case try_request svc n_clients iteration_count st of
        (Inr response, st2) \<Rightarrow> (RetryBreak response, st2)
      | (Inl (Uncaught e), st2) \<Rightarrow> (RetryRaise e, st2)
      | (Inl (Caught e), st2) \<Rightarrow>
         (let error_msg = ''Together AI API Error (attempt '' @ str_nat (retry_attempt + 1)
                @ ''/'' @ str_nat max_retries @ ''): '' @ e;
              st3 = observe ''API_ERROR'' error_msg ''ERROR'' st2
          in if retry_attempt = max_retries - 1 then (RetryBreak None, st3)
             else retry_loop svc n_clients iteration_count rest st3))"

text \<open>\<open>function_args.get(key, default)\<close> on a dictionary.\<close>

definition get_arg :: "(string \<times> json) list \<Rightarrow> string \<Rightarrow> json \<Rightarrow> json" where
  "get_arg args k d = (case map_of args k of Some v \<Rightarrow> v | None \<Rightarrow> d)"

text \<open>
  Lines 581 to 597, one call of \<open>run_code\<close> on the dictionary of its arguments:
  the tool runs on the \<open>code\<close> argument, \<open>final_code\<close> takes the code if it is
  truthy, and the verdict is appended to the messages. When the tool raises, so
  does the call.
\<close>

definition call_run_code ::
  "'ns python \<Rightarrow> string list \<Rightarrow> tool_call \<Rightarrow> (string \<times> json) list \<Rightarrow> session
     \<Rightarrow> (error + verdict) \<times> session" where
  "call_run_code py test_cases tc function_args st =
     (let code = get_arg function_args ''code'' (JStr []);
          reason = get_arg function_args ''reason'' (JStr ''No reason provided'');
          st1 = st\<lparr>tool := snd (run_code_tool py test_cases code reason (tool st))\<rparr>
      in case fst (run_code_tool py test_cases code reason (tool st)) of
           Inl e \<Rightarrow> (Inl e, st1)
         | Inr tool_result \<Rightarrow>
            (let st2 = (if truthy code then st1\<lparr>final_code := Some code\<rparr> else st1);
                 st3 = st2\<lparr>messages := messages st2 @
                          [ToolMsg (tc_id tc) (tc_name tc) tool_result]\<rparr>
             in (Inr tool_result, st3)))"

text \<open>
  Lines 571 to 626, the loop over the tool calls of one answer. When the agent is
  verbose, line 577 prints \<open>function_args.keys()\<close>, and line 582 calls
  \<open>function_args.get\<close>: both raise \<open>AttributeError\<close> on arguments that are not an
  object. A call of another function than \<open>run_code\<close> is passed over. \<open>Next\<close>: all
  the calls were handled and none was accepted.
\<close>

fun process_tool_calls ::
  "'ns python \<Rightarrow> bool \<Rightarrow> string list \<Rightarrow> string \<Rightarrow> tool_call list \<Rightarrow> session
     \<Rightarrow> flow \<times> session" where
  "process_tool_calls py is_verbose test_cases buggy_code [] st = (Next, st)"
| "process_tool_calls py is_verbose test_cases buggy_code (tc # rest) st =
     (case tc_arguments tc of
        None \<Rightarrow> (Raise JSONDecodeError, st)
      | Some (JObj function_args) \<Rightarrow>
          if tc_name tc = ''run_code'' then
            (case call_run_code py test_cases tc function_args st of
               (Inl e, st3) \<Rightarrow> (Raise e, st3)
             | (Inr tool_result, st3) \<Rightarrow>
                 if success tool_result then
                   (Return (case final_code st3 of
                              Some c \<Rightarrow> if truthy c then c else JStr buggy_code
                            | None \<Rightarrow> JStr buggy_code),
                    observe ''FIX_SUCCESS'' ''Code fix completed - all tests passed'' ''SUCCESS''
                      st3)
                 else
                   process_tool_calls py is_verbose test_cases buggy_code rest
                     (st3\<lparr>consecutive_failures := consecutive_failures st3 + 1\<rparr>))
          else process_tool_calls py is_verbose test_cases buggy_code rest st
      | Some other \<Rightarrow>
          if is_verbose \<or> tc_name tc = ''run_code'' then (Raise AttributeError, st)
          else process_tool_calls py is_verbose test_cases buggy_code rest st)"

text \<open>
  Lines 404 to 649, the loop \<open>for iteration_count in range(self.max_iterations)\<close>
  over the remaining values of \<open>iteration_count\<close>. When the retry loop is left by
  its \<open>break\<close> after the last failed attempt, \<open>response\<close> is \<open>None\<close> and line 533,
  \<open>response.choices[0].message\<close>, raises \<open>AttributeError\<close>. \<open>Next\<close>: the loop ran out.
\<close>

fun agent_loop ::
  "'ns python \<Rightarrow> service \<Rightarrow> bool \<Rightarrow> string list \<Rightarrow> string \<Rightarrow> nat \<Rightarrow> nat list \<Rightarrow> session
     \<Rightarrow> flow \<times> session" where
  "agent_loop py svc is_verbose test_cases buggy_code n_clients [] st = (Next, st)"
| "agent_loop py svc is_verbose test_cases buggy_code n_clients (iteration_count # rest) st =
     (case retry_loop svc n_clients iteration_count [0..<max_retries] st of
        (RetryElse, st1) \<Rightarrow> (Break, st1)
      | (RetryRaise e, st1) \<Rightarrow> (Raise e, st1)
      | (RetryBreak None, st1) \<Rightarrow> (Raise AttributeError, st1)
      | (RetryBreak (Some assistant_message), st1) \<Rightarrow>
          (let st2 = st1\<lparr>messages := messages st1 @ [AssistantMsg assistant_message]\<rparr> in
           if tool_calls assistant_message \<noteq> [] then
             (case process_tool_calls py is_verbose test_cases buggy_code
                     (tool_calls assistant_message) (st2\<lparr>tool_was_called := True\<rparr>) of
                (Next, st3) \<Rightarrow>
                  agent_loop py svc is_verbose test_cases buggy_code n_clients rest st3
              | (fl, st3) \<Rightarrow> (fl, st3))
           else if iteration_count = 0 then
             agent_loop py svc is_verbose test_cases buggy_code n_clients rest
               (st2\<lparr>messages := messages st2 @ [ForcePrompt]\<rparr>)
           else (Break, st2)))"

text \<open>
  The state in which the loop starts (lines 294 to 402): the observer's session is
  started, the globals of the tool are set, \<open>_previous_code\<close> to \<open>None\<close>.
\<close>

definition initial_session :: "agent \<Rightarrow> string \<Rightarrow> string list \<Rightarrow> string \<Rightarrow> session" where
  "initial_session self buggy_code test_cases task_id =
     \<lparr>messages = [SystemPrompt, UserPrompt buggy_code test_cases],
      tool_was_called = False,
      final_code = None,
      consecutive_failures = 0,
      current_client_index = client_index self,
      api_calls = 0,
      tool = \<lparr>previous_code = None,
              logs = log ''AGENT_RUN'' ''Running Together AI agent...'' ''AGENT''
                      (log ''FIX_START''
                         (''Starting code fix with Together AI ('' @ model_name self @ '')'')
                         ''AGENT''
                         (log ''SESSION_START'' (''Starting task: '' @ task_id) ''INFO''
                            (observer_logs self))),
              events = []\<rparr>\<rparr>"

text \<open>
  \<open>fix_code(buggy_code, error_description, test_cases, task_id)\<close>; the description
  is only printed. The result is the value returned (\<open>Inr\<close>), a string unless a
  \<open>code\<close> argument that was not one got into \<open>final_code\<close>, or the way the call ends
  without returning (\<open>Inl\<close>), with the final state. Line 652 takes \<open>len(final_code)\<close>.
\<close>

definition fix_code ::
  "'ns python \<Rightarrow> service \<Rightarrow> agent \<Rightarrow> string \<Rightarrow> string list \<Rightarrow> string
     \<Rightarrow> (error + json) \<times> session" where
  "fix_code py svc self buggy_code test_cases task_id =
     (case agent_loop py svc (verbose self) test_cases buggy_code (clients self)
             [0..<max_iterations self] (initial_session self buggy_code test_cases task_id) of
        (Return c, st) \<Rightarrow> (Inr c, st)
      | (Raise e, st) \<Rightarrow> (Inl e, st)
      | (_, st) \<Rightarrow>
          (case final_code st of
             None \<Rightarrow>
               (Inr (JStr buggy_code), observe ''FIX_FAILED'' ''Could not fix code'' ''ERROR'' st)
           | Some c \<Rightarrow>
               if \<not> truthy c then
                 (Inr (JStr buggy_code), observe ''FIX_FAILED'' ''Could not fix code'' ''ERROR'' st)
               else
                 (case py_len c of
                    None \<Rightarrow> (Inl TypeError, st)
                  | Some n \<Rightarrow>
                      if n > 20 then
                        (Inr c,
                         observe ''FIX_PARTIAL''
                           ''Returning last submitted code (tests may not pass)'' ''ERROR'' st)
                      else
                        (Inr (JStr buggy_code),
                         observe ''FIX_FAILED'' ''Could not fix code'' ''ERROR'' st))))"

section \<open>Notions used to state the properties\<close>

text \<open>The service fails at its \<open>k\<close>-th call, for some request.\<close>

definition fails_at :: "service \<Rightarrow> nat \<Rightarrow> bool" where
  "fails_at svc k = (\<exists>req e. svc k req = ApiError e)"

text \<open>The diagnostic of lines 127 and 218 for a syntax error.\<close>

definition syntax_diagnostic :: "nat option \<Rightarrow> string \<Rightarrow> string" where
  "syntax_diagnostic lineno msg =
     ''Syntax Error:'' @ [nl] @ ''Syntax Error at line '' @ str_lineno lineno @ '': '' @ msg"


text \<open>The duplicate guard of \<open>run_code_tool\<close> (line 87) catches the code.\<close>

definition is_duplicate :: "tool_state \<Rightarrow> json \<Rightarrow> bool" where
  "is_duplicate s code = (same_as_previous s code = Inr True)"

text \<open>
  The state in which a string candidate that passed the guards is validated: it is
  the recorded submission, the two log entries of lines 108 and 109 are made, and
  the call of \<open>validate_code\<close> is recorded.
\<close>

definition admitted :: "tool_state \<Rightarrow> string \<Rightarrow> tool_state" where
  "admitted s c =
     s\<lparr>previous_code := Some (JStr c),
       logs := log ''TOOL_EXECUTE'' (''Running code ('' @ str_nat (length c) @ '' chars)...'')
                 ''TOOL'' (log ''TOOL_CALLED'' ''LLM CALLED run_code TOOL!'' ''TOOL'' (logs s)),
       events := events s @ [Validated (JStr c)]\<rparr>"

text \<open>The recorded previous submission, if there is one, is a string.\<close>

definition text_state :: "tool_state \<Rightarrow> bool" where
  "text_state s = (case previous_code s of None \<Rightarrow> True | Some p \<Rightarrow> is_text p)"




text \<open>
  Every call of the service comes back: it returns a response or raises an
  \<open>Exception\<close>.
\<close>

fun api_returns :: "api_outcome \<Rightarrow> bool" where
  "api_returns (ApiEscapes e) = False"
| "api_returns ApiHangs = False"
| "api_returns _ = True"



text \<open>A transcript entry that is an accepted verdict.\<close>

fun accepted :: "msg \<Rightarrow> bool" where
  "accepted (ToolMsg i n v) = success v"
| "accepted _ = False"





text \<open>
  The sources that the answers of a transcript submit: the \<open>code\<close> arguments of the
  \<open>run_code\<close> calls, in order. A call without code, or with falsy code, submits
  nothing (\<open>No code provided\<close>).
\<close>

definition call_code :: "tool_call \<Rightarrow> json list" where
  "call_code tc =
     (case tc_arguments tc of
        Some (JObj kv) \<Rightarrow>
          if tc_name tc = ''run_code'' \<and> truthy (get_arg kv ''code'' (JStr []))
          then [get_arg kv ''code'' (JStr [])] else []
      | _ \<Rightarrow> [])"

fun submitted :: "msg \<Rightarrow> json list" where
  "submitted (AssistantMsg m) = concat (map call_code (tool_calls m))"
| "submitted _ = []"




fun is_validated :: "event \<Rightarrow> bool" where
  "is_validated (Validated c) = True"
| "is_validated _ = False"


fun is_requested :: "event \<Rightarrow> bool" where
  "is_requested (Requested n) = True"
| "is_requested _ = False"

section \<open>A concrete interpreter and service\<close>

text \<open>
  The examples below run the model on the candidates of the specification's
  scenarios. \<open>add_python\<close> gives the answers of Python on them: each candidate
  defines \<open>add\<close>, the namespace it leaves is the function \<open>add\<close> denotes, a source
  with a NUL character is refused by a \<open>SyntaxError\<close> that carries no line (as
  Python 3.11 does), and every other text is refused as a syntax error at line 1.
\<close>

definition add_minus :: string where
  "add_minus = ''def add(a,b): return a-b''"

definition add_plus :: string where
  "add_plus = ''def add(a,b): return a+b''"

definition add_plus1 :: string where
  "add_plus1 = ''def add(a,b): return a+b+1''"

definition add_nocolon :: string where
  "add_nocolon = ''def add(a,b) return a+b''"

definition nul_source :: string where
  "nul_source = ''x = 1'' @ [CHR 0x00]"

definition test_12 :: string where
  "test_12 = ''assert add(1,2)==3''"

definition test_00 :: string where
  "test_00 = ''assert add(0,0)==0''"

definition add_meaning :: "string \<Rightarrow> (int \<Rightarrow> int \<Rightarrow> int) option" where
  "add_meaning c =
     (if c = add_minus then Some (\<lambda>a b. a - b)
      else if c = add_plus then Some (\<lambda>a b. a + b)
      else if c = add_plus1 then Some (\<lambda>a b. a + b + 1)
      else None)"

definition add_python :: "(int \<Rightarrow> int \<Rightarrow> int) python" where
  "add_python =
     \<lparr>py_builtins = [''open'', ''__import__'', ''eval'', ''exec'', ''compile'', ''getattr'',
                     ''globals'', ''print'', ''len''],
      py_compile = (\<lambda>c. case add_meaning c of
                           Some f \<Rightarrow> CompileOk
                         | None \<Rightarrow>
                             if c = nul_source
                             then CompileSyntaxError None None
                                    ''source code string cannot contain null bytes''
                             else CompileSyntaxError (Some 1) (Some 14) ''invalid syntax''),
      py_ast_parse = (\<lambda>c. case add_meaning c of
                             Some f \<Rightarrow> ParseOk (Some ''add'')
                           | None \<Rightarrow> ParseSyntaxError ''invalid syntax (<unknown>, line 1)''),
      py_exec = (\<lambda>ns c. case add_meaning c of
                           Some f \<Rightarrow> ExecOk f []
                         | None \<Rightarrow> ExecFault (Exn ''SyntaxError'' ''invalid syntax (<string>, line 1)'')
                                     [] []),
      py_in_namespace = (\<lambda>f name. name = ''add''),
      py_exec_test = (\<lambda>f t.
         if t = test_12 then (if f 1 2 = 3 then TestPassed else TestAssertionError)
         else if t = test_00 then (if f 0 0 = 0 then TestPassed else TestAssertionError)
         else if t = ''pass'' then TestPassed
         else TestRaised (Exn ''SyntaxError'' ''invalid syntax (<string>, line 1)'')),
      py_eval = (\<lambda>f t e.
         if e = ''add(1,2)'' then EvalValue (PyInt (f 1 2))
         else if e = ''add(0,0)'' then EvalValue (PyInt (f 0 0))
         else if e = ''3'' then EvalValue (PyInt 3)
         else if e = ''0'' then EvalValue (PyInt 0)
         else EvalRaised)\<rparr>"

text \<open>An answer that submits \<open>code\<close> through one \<open>run_code\<close> call.\<close>

definition submit :: "string \<Rightarrow> assistant_message" where
  "submit code =
     \<lparr>content = None,
      tool_calls = [\<lparr>tc_id = ''call_1'', tc_name = ''run_code'',
                     tc_arguments = Some (JObj [(''code'', JStr code),
                                                (''reason'', JStr ''fix'')])\<rparr>]\<rparr>"

text \<open>A service that gives the answers of a script in turn, and fails after them.\<close>

definition scripted :: "assistant_message list \<Rightarrow> service" where
  "scripted script n req =
     (if n < length script then ApiResponse (script ! n) else ApiError ''timeout'')"

text \<open>A service that fails at every call.\<close>

definition unreachable_service :: service where
  "unreachable_service n req = ApiError ''timeout''"

definition test_agent :: "nat \<Rightarrow> agent" where
  "test_agent n =
     \<lparr>max_iterations = n, model_name = ''meta-llama/Llama-3.3-70B-Instruct-Turbo'',
      verbose = True, clients = 1, client_index = 0, observer_logs = []\<rparr>"

text \<open>A session of two answers, the second of which is accepted.\<close>

definition accept_run :: "(error + json) \<times> session" where
  "accept_run =
     fix_code add_python (scripted [submit add_minus, submit add_plus]) (test_agent 5)
       add_minus [test_12] ''task''"






text \<open>A session with the service that fails at every call, under the default budget.\<close>

definition down_run :: "(error + json) \<times> session" where
  "down_run =
     fix_code add_python unreachable_service (test_agent default_max_iterations)
       add_minus [test_12] ''task''"

text \<open>The verdict of the tool on a candidate that runs when there are no assertions.\<close>

definition runs_clean :: verdict where
  "runs_clean =
     \<lparr>success = True, v_error = None, v_message = Some ''Code runs without errors!'',
      v_tests_passed = None, v_tests_total = None, v_failed_count = None,
      v_failed_tests = None, v_duplicate_submission = False\<rparr>"

definition fresh_tool :: tool_state where
  "fresh_tool = \<lparr>previous_code = None, logs = [], events = []\<rparr>"

section \<open>The tool: guards and verdicts\<close>

lemma add_meaning_nocolon: "add_meaning add_nocolon = None"
  by (simp add: add_meaning_def add_nocolon_def add_minus_def add_plus_def add_plus1_def)


lemma add_meaning_minus: "add_meaning add_minus = Some (\<lambda>a b. a - b)"
  by (simp add: add_meaning_def)

lemma add_meaning_plus: "add_meaning add_plus = Some (\<lambda>a b. a + b)"
  by (simp add: add_meaning_def add_minus_def add_plus_def)

lemma add_meaning_plus1: "add_meaning add_plus1 = Some (\<lambda>a b. a + b + 1)"
  by (simp add: add_meaning_def add_minus_def add_plus_def add_plus1_def)

lemma add_nonempty:
  "add_minus \<noteq> []" "add_plus \<noteq> []" "add_plus1 \<noteq> []" "add_nocolon \<noteq> []" "nul_source \<noteq> []"
  by (simp_all add: add_minus_def add_plus_def add_plus1_def add_nocolon_def nul_source_def)

lemma same_as_previous_fresh: "same_as_previous fresh_tool code = Inr False"
  by (simp add: same_as_previous_def fresh_tool_def)

lemma same_as_previous_text:
  "text_state s \<Longrightarrow> \<exists>b. same_as_previous s (JStr c) = Inr b"
  by (cases "previous_code s"; cases "the (previous_code s)")
     (auto simp: same_as_previous_def text_state_def)

lemma run_code_tool_empty:
  "\<not> truthy code \<Longrightarrow> run_code_tool py tcs code r s = (Inr (failure ''No code provided''), s)"
  by (simp add: run_code_tool_def)

lemma run_code_tool_duplicate:
  assumes "truthy code" and "is_duplicate s code"
  shows "run_code_tool py tcs code r s =
           (Inr ((failure duplicate_warning)\<lparr>v_duplicate_submission := True\<rparr>),
            s\<lparr>logs := log ''DUPLICATE_CODE'' ''Same code submitted twice!'' ''ERROR'' (logs s)\<rparr>)"
  using assms by (simp add: run_code_tool_def is_duplicate_def)

lemma run_code_tool_raises:
  assumes "truthy code" and "same_as_previous s code = Inl e"
  shows "run_code_tool py tcs code r s = (Inl e, s)"
  using assms by (simp add: run_code_tool_def)

lemma admitted_fields [simp]:
  "previous_code (admitted s c) = Some (JStr c)"
  "events (admitted s c) = events s @ [Validated (JStr c)]"
  by (simp_all add: admitted_def)

lemma run_code_tool_admitted:
  assumes "c \<noteq> []" and "same_as_previous s (JStr c) = Inr False"
  shows "run_code_tool py tcs (JStr c) r s =
           (if \<not> fst (validate_code py (JStr c))
            then (Inr (failure (''Syntax Error:'' @ [nl] @ snd (validate_code py (JStr c)))),
                  (admitted s c)\<lparr>logs := log ''SYNTAX_ERROR'' (snd (validate_code py (JStr c)))
                                            ''ERROR'' (logs (admitted s c))\<rparr>)
            else run_against_tests py tcs (JStr c) (admitted s c))"
  using assms by (simp add: run_code_tool_def Let_def admitted_def)

lemma run_against_tests_state:
  "previous_code (snd (run_against_tests py tcs code s)) = previous_code s"
  "\<exists>ts. events (snd (run_against_tests py tcs code s)) = events s @ [Executed code ts]"
  by (auto simp: run_against_tests_def Let_def split: sum.splits option.splits)

lemma run_code_tool_previous:
  assumes "c \<noteq> []" and "text_state s"
  shows "same_as_previous (snd (run_code_tool py tcs (JStr c) r s)) (JStr c')
           = Inr (strip c' = strip c)"
proof -
  from same_as_previous_text [OF assms(2)] obtain b where b: "same_as_previous s (JStr c) = Inr b"
    by blast
  show ?thesis
  proof (cases b)
    case True
    then have d: "is_duplicate s (JStr c)"
      using b by (simp add: is_duplicate_def)
    have "\<exists>p. previous_code s = Some (JStr p) \<and> strip c = strip p"
      using b True
      by (cases "previous_code s"; cases "the (previous_code s)")
         (auto simp: same_as_previous_def)
    then show ?thesis
      using assms(1) d by (auto simp: run_code_tool_duplicate same_as_previous_def)
  next
    case False
    then have "previous_code (snd (run_code_tool py tcs (JStr c) r s)) = Some (JStr c)"
      using assms(1) b by (simp add: run_code_tool_admitted run_against_tests_state)
    then show ?thesis by (simp add: same_as_previous_def)
  qed
qed

lemma run_code_tool_syntax_error:
  assumes "c \<noteq> []" and "same_as_previous s (JStr c) = Inr False"
      and "py_compile py c = CompileSyntaxError lineno offset msg"
  shows "fst (run_code_tool py tcs (JStr c) r s) = Inr (failure (syntax_diagnostic lineno msg))"
    and "events (snd (run_code_tool py tcs (JStr c) r s)) = events s @ [Validated (JStr c)]"
    and "previous_code (snd (run_code_tool py tcs (JStr c) r s)) = Some (JStr c)"
  using assms
  by (simp_all add: run_code_tool_admitted validate_code_def syntax_diagnostic_def)

lemma duplicate_warning_not_syntax:
  "duplicate_warning \<noteq> CHR ''S'' # rest"
  by (simp add: duplicate_warning_def)

lemma nocolon_not_nul: "add_nocolon \<noteq> nul_source"
  by (simp add: add_nocolon_def nul_source_def)

lemma returned_text_state:
  assumes "c \<noteq> []" and "fst (run_code_tool py tcs (JStr c) r s) = Inr v"
  shows "text_state s"
proof (cases "previous_code s")
  case None
  then show ?thesis by (simp add: text_state_def)
next
  case (Some p)
  show ?thesis
  proof (cases "is_text p")
    case True
    then show ?thesis using Some by (simp add: text_state_def)
  next
    case False
    then have "same_as_previous s (JStr c) = Inl AttributeError"
      using Some by (cases p) (simp_all add: same_as_previous_def)
    then show ?thesis
      using assms by (simp add: run_code_tool_raises)
  qed
qed

text \<open>
  When the candidate does not run to its end, no test is counted and the result
  carries an error text.
\<close>

lemma execute_code_fault:
  assumes "\<forall>ns out. py_exec py (initial_namespace py) c \<noteq> ExecOk ns out"
      and "execute_code py (JStr c) tcs = Inr res"
  shows "r_tests_total res = 0" and "r_tests_passed res = 0"
    and "\<exists>e. r_error res = Some e \<and> e \<noteq> []"
  using assms
  by (auto simp: execute_code_def Let_def split: parse_outcome.splits exec_outcome.splits)

lemma validate_code_text:
  "fst (validate_code py code) \<Longrightarrow> \<exists>c. code = JStr c \<and> py_compile py c = CompileOk"
  by (cases code) (auto simp: validate_code_def split: compile_outcome.splits)

lemma run_code_tool_tests:
  assumes "tcs \<noteq> []" and "fst (run_code_tool py tcs code r s) = Inr v"
  shows "success v \<longleftrightarrow> 0 < tests_total v \<and> tests_passed v = tests_total v"
  using assms
  by (auto simp: run_code_tool_def run_against_tests_def Let_def failure_def tests_total_def
        tests_passed_def split: sum.splits bool.splits option.splits if_splits)

lemma run_code_tool_accepts:
  assumes "fst (run_code_tool py tcs code r s) = Inr v" and "success v"
  shows "\<exists>c. code = JStr c \<and> c \<noteq> [] \<and> same_as_previous s code = Inr False
             \<and> py_compile py c = CompileOk
             \<and> run_code_tool py tcs code r s = run_against_tests py tcs code (admitted s c)"
proof -
  have t: "truthy code"
    using assms by (auto simp: run_code_tool_def failure_def split: if_splits)
  have sp: "same_as_previous s code = Inr False"
    using assms t
    by (auto simp: run_code_tool_def failure_def split: sum.splits bool.splits)
  have v: "fst (validate_code py code)"
    using assms t sp
    by (auto simp: run_code_tool_def Let_def failure_def split: option.splits if_splits)
  from validate_code_text [OF v] obtain c where c: "code = JStr c" "py_compile py c = CompileOk"
    by blast
  have ne: "c \<noteq> []"
    using t c by simp
  show ?thesis
    using c ne sp v run_code_tool_admitted [OF ne sp [unfolded c(1)], of py tcs r]
    by simp
qed

lemma run_against_tests_executed:
  assumes "fst (run_against_tests py tcs (JStr c) s) = Inr v" and "success v"
  shows "\<exists>ns out. py_exec py (initial_namespace py) c = ExecOk ns out"
proof (rule ccontr)
  assume "\<not> ?thesis"
  then have f: "\<forall>ns out. py_exec py (initial_namespace py) c \<noteq> ExecOk ns out"
    by simp
  show False
    using assms execute_code_fault [OF f, of tcs] execute_code_fault [OF f, of "[''pass'']"]
    by (auto simp: run_against_tests_def Let_def failure_def
          split: if_splits option.splits sum.splits)
qed

lemma run_code_tool_success_executed:
  assumes "fst (run_code_tool py tcs code r s) = Inr v" and "success v"
  shows "\<exists>c ns out. code = JStr c \<and> py_exec py (initial_namespace py) c = ExecOk ns out"
proof -
  from run_code_tool_accepts [OF assms] obtain c where
    c: "code = JStr c" "run_code_tool py tcs code r s = run_against_tests py tcs code (admitted s c)"
    by blast
  from run_against_tests_executed [of py tcs c "admitted s c" v] assms c
  show ?thesis by simp
qed

lemma execute_code_pass:
  assumes "execute_code py (JStr c) [''pass''] = Inr res"
  shows "(case r_error res of None \<Rightarrow> True | Some e \<Rightarrow> e = [])
   \<longleftrightarrow> (\<exists>fn ns out. py_ast_parse py c = ParseOk (Some fn) \<and> fn \<noteq> []
          \<and> py_exec py (initial_namespace py) c = ExecOk ns out
          \<and> py_in_namespace py ns fn
          \<and> py_exec_test py ns ''pass'' = TestPassed)"
  using assms
  by (auto simp: execute_code_def run_test_def Let_def failure_summary_def
        split: parse_outcome.splits exec_outcome.splits option.splits test_outcome.splits
               sum.splits if_splits)

lemma run_against_no_tests:
  assumes "fst (run_against_tests py [] (JStr c) s) = Inr v"
  shows "success v
   \<longleftrightarrow> (\<exists>fn ns out. py_ast_parse py c = ParseOk (Some fn) \<and> fn \<noteq> []
          \<and> py_exec py (initial_namespace py) c = ExecOk ns out
          \<and> py_in_namespace py ns fn
          \<and> py_exec_test py ns ''pass'' = TestPassed)"
proof -
  obtain res where r: "execute_code py (JStr c) [''pass''] = Inr res"
    using assms by (cases "execute_code py (JStr c) [''pass'']")
      (auto simp: run_against_tests_def Let_def)
  have "success v \<longleftrightarrow> (case r_error res of None \<Rightarrow> True | Some e \<Rightarrow> e = [])"
    using assms r
    by (auto simp: run_against_tests_def Let_def failure_def split: option.splits if_splits)
  then show ?thesis
    using execute_code_pass [OF r] by simp
qed

lemma run_code_tool_no_tests:
  assumes "fst (run_code_tool py [] code r s) = Inr v"
  shows "success v
   \<longleftrightarrow> (\<exists>c. code = JStr c \<and> c \<noteq> [] \<and> same_as_previous s code = Inr False
          \<and> py_compile py c = CompileOk
          \<and> (\<exists>fn ns out. py_ast_parse py c = ParseOk (Some fn) \<and> fn \<noteq> []
              \<and> py_exec py (initial_namespace py) c = ExecOk ns out
              \<and> py_in_namespace py ns fn
              \<and> py_exec_test py ns ''pass'' = TestPassed))"
proof
  assume s: "success v"
  from run_code_tool_accepts [OF assms s] obtain c where
    c: "code = JStr c" "c \<noteq> []" "same_as_previous s code = Inr False"
       "py_compile py c = CompileOk"
       "run_code_tool py [] code r s = run_against_tests py [] code (admitted s c)"
    by blast
  have "fst (run_against_tests py [] (JStr c) (admitted s c)) = Inr v"
    using assms c by simp
  from run_against_no_tests [OF this] s c
  show "\<exists>c. code = JStr c \<and> c \<noteq> [] \<and> same_as_previous s code = Inr False
          \<and> py_compile py c = CompileOk
          \<and> (\<exists>fn ns out. py_ast_parse py c = ParseOk (Some fn) \<and> fn \<noteq> []
              \<and> py_exec py (initial_namespace py) c = ExecOk ns out
              \<and> py_in_namespace py ns fn
              \<and> py_exec_test py ns ''pass'' = TestPassed)"
    by blast
next
  assume "\<exists>c. code = JStr c \<and> c \<noteq> [] \<and> same_as_previous s code = Inr False
          \<and> py_compile py c = CompileOk
          \<and> (\<exists>fn ns out. py_ast_parse py c = ParseOk (Some fn) \<and> fn \<noteq> []
              \<and> py_exec py (initial_namespace py) c = ExecOk ns out
              \<and> py_in_namespace py ns fn
              \<and> py_exec_test py ns ''pass'' = TestPassed)"
  then obtain c where c: "code = JStr c" "c \<noteq> []" "same_as_previous s (JStr c) = Inr False"
       "py_compile py c = CompileOk"
    and sem: "\<exists>fn ns out. py_ast_parse py c = ParseOk (Some fn) \<and> fn \<noteq> []
              \<and> py_exec py (initial_namespace py) c = ExecOk ns out
              \<and> py_in_namespace py ns fn
              \<and> py_exec_test py ns ''pass'' = TestPassed"
    by auto
  have "run_code_tool py [] (JStr c) r s = run_against_tests py [] (JStr c) (admitted s c)"
    using c by (simp add: run_code_tool_admitted validate_code_def)
  then have "fst (run_against_tests py [] (JStr c) (admitted s c)) = Inr v"
    using assms c(1) by simp
  from run_against_no_tests [OF this] sem show "success v"
    by simp
qed

lemma add_plus_run:
  "execute_code add_python (JStr add_plus) [test_12]
     = Inr \<lparr>r_success = True, r_output = [], r_error = None, r_tests_passed = 1,
            r_tests_total = 1, r_failed_tests = [],
            r_passed_tests = [\<lparr>pt_number = 1, pt_test = test_12, pt_status = ''PASSED''\<rparr>]\<rparr>"
  by (simp add: execute_code_def run_test_def Let_def add_python_def add_meaning_plus)

lemma add_plus_accepted:
  "fst (run_code_tool add_python [test_12] (JStr add_plus) (JStr ''fix'') fresh_tool)
     = Inr \<lparr>success = True, v_error = None, v_message = Some ''SUCCESS! All 1 tests passed!'',
            v_tests_passed = Some 1, v_tests_total = Some 1, v_failed_count = None,
            v_failed_tests = None, v_duplicate_submission = False\<rparr>"
proof -
  have v: "validate_code add_python (JStr add_plus) = (True, [])"
    by (simp add: validate_code_def add_python_def add_meaning_plus)
  show ?thesis
    by (simp add: run_code_tool_admitted [OF add_nonempty(2) same_as_previous_fresh] v
          run_against_tests_def add_plus_run Let_def str_nat.simps)
qed

text \<open>
  C3. The claim is that the candidate runs in a namespace restricted to a whitelist
  of safe built-in operations, so that no filesystem, network, process or reflection
  primitive can be reached. The namespace of \<open>execute_code\<close> binds \<open>__builtins__\<close> to
  the host's own \<open>builtins\<close> module, so every name the host defines there (\<open>open\<close>,
  \<open>__import__\<close>, \<open>eval\<close>, \<open>exec\<close>, \<open>getattr\<close>) resolves for the candidate: the whitelist
  restricts nothing.
\<close>

theorem builtins_reachable:
  "name \<in> set (py_builtins py) \<Longrightarrow> lookup_name (initial_namespace py) name \<noteq> None"
  by (simp add: lookup_name_def initial_namespace_def split: option.splits)

theorem builtins_reachable_witness:
  "''open'' \<in> set (py_builtins add_python)
   \<and> lookup_name (initial_namespace add_python) ''open'' \<noteq> None"
proof -
  have h: "''open'' \<in> set (py_builtins add_python)"
    by (simp add: add_python_def)
  show ?thesis
    using h builtins_reachable [OF h] by simp
qed




text \<open>
  C7. A submission is a call of the tool that provides code. When a submission
  follows one whose source is the same up to surrounding whitespace, its verdict is
  the stuck signal: not accepted, flagged \<open>duplicate_submission\<close>, with the warning
  as its error. Nothing is validated or executed for it (the record of executor
  calls is unchanged), and the recorded previous submission stays as it was. The
  session is one whose recorded submission, if any, is a string: every session in
  which the first of the two submissions got a verdict is (lemma
  \<open>returned_text_state\<close>).
\<close>

theorem duplicate_guard:
  assumes "prev \<noteq> []" and "code \<noteq> []" and "strip code = strip prev" and "text_state s"
  shows "let s1 = snd (run_code_tool py tcs (JStr prev) r1 s);
             res = run_code_tool py tcs (JStr code) r2 s1
         in fst res = Inr ((failure duplicate_warning)\<lparr>v_duplicate_submission := True\<rparr>)
            \<and> \<not> success ((failure duplicate_warning)\<lparr>v_duplicate_submission := True\<rparr>)
            \<and> v_duplicate_submission
                 ((failure duplicate_warning)\<lparr>v_duplicate_submission := True\<rparr>)
            \<and> v_error ((failure duplicate_warning)\<lparr>v_duplicate_submission := True\<rparr>)
                 = Some duplicate_warning
            \<and> events (snd res) = events s1
            \<and> previous_code (snd res) = previous_code s1"
proof -
  have "is_duplicate (snd (run_code_tool py tcs (JStr prev) r1 s)) (JStr code)"
    using assms by (simp add: is_duplicate_def run_code_tool_previous)
  then show ?thesis
    using assms(2) by (simp add: run_code_tool_duplicate failure_def Let_def)
qed

theorem duplicate_guard_witness:
  "add_minus \<noteq> [] \<and> ''  '' @ add_minus @ [nl] \<noteq> []
   \<and> strip (''  '' @ add_minus @ [nl]) = strip add_minus
   \<and> text_state fresh_tool
   \<and> (let s1 = snd (run_code_tool add_python [test_12] (JStr add_minus) (JStr ''first'') fresh_tool);
          res = run_code_tool add_python [test_12] (JStr (''  '' @ add_minus @ [nl]))
                  (JStr ''again'') s1
      in fst res = Inr ((failure duplicate_warning)\<lparr>v_duplicate_submission := True\<rparr>)
         \<and> events (snd res) = events s1
         \<and> previous_code (snd res) = previous_code s1)"
proof -
  have a: "add_minus \<noteq> []"
    by (simp add: add_minus_def)
  have b: "''  '' @ add_minus @ [nl] \<noteq> []"
    by simp
  have c: "strip (''  '' @ add_minus @ [nl]) = strip add_minus"
    by (simp add: strip_def isspace_def add_minus_def nl_def)
  have d: "text_state fresh_tool"
    by (simp add: text_state_def fresh_tool_def)
  show ?thesis
    using a b c d
      duplicate_guard [OF a b c d, of add_python "[test_12]" "JStr ''first''" "JStr ''again''"]
    by (simp add: Let_def)
qed

text \<open>
  C10. \<open>_previous_code\<close> is stored before the syntax check. A candidate with a syntax
  error that reaches the check gets the syntax diagnostic and becomes the recorded
  previous submission; submitted again, it gets the stuck signal, another verdict,
  and is not validated a second time. An empty code string
  gets \<open>No code provided\<close> and leaves the state, hence the recorded submission, as
  it was.
\<close>

theorem invalid_candidate_recorded:
  assumes "code \<noteq> []" and "same_as_previous s (JStr code) = Inr False"
      and "py_compile py code = CompileSyntaxError lineno offset msg"
  shows "let first = run_code_tool py tcs (JStr code) r1 s;
             second = run_code_tool py tcs (JStr code) r2 (snd first)
         in fst first
              = Inr (failure (''Syntax Error:'' @ [nl] @ ''Syntax Error at line ''
                       @ str_lineno lineno @ '': '' @ msg))
          \<and> previous_code (snd first) = Some (JStr code)
          \<and> fst second = Inr ((failure duplicate_warning)\<lparr>v_duplicate_submission := True\<rparr>)
          \<and> fst second \<noteq> fst first
          \<and> events (snd second) = events (snd first)
          \<and> run_code_tool py tcs (JStr []) r3 t = (Inr (failure ''No code provided''), t)"
proof -
  have t: "truthy (JStr code)"
    using assms(1) by simp
  have dup: "is_duplicate (snd (run_code_tool py tcs (JStr code) r1 s)) (JStr code)"
    using run_code_tool_syntax_error(3) [OF assms, of tcs r1]
    by (simp add: is_duplicate_def same_as_previous_def)
  show ?thesis
    using run_code_tool_syntax_error [OF assms, of tcs r1]
      run_code_tool_duplicate [OF t dup, of py tcs r2]
    by (simp add: Let_def failure_def run_code_tool_empty syntax_diagnostic_def)
qed

theorem invalid_candidate_recorded_witness:
  "add_nocolon \<noteq> [] \<and> same_as_previous fresh_tool (JStr add_nocolon) = Inr False
   \<and> py_compile add_python add_nocolon = CompileSyntaxError (Some 1) (Some 14) ''invalid syntax''
   \<and> (let first = run_code_tool add_python [test_12] (JStr add_nocolon) (JStr ''fix'') fresh_tool;
          second = run_code_tool add_python [test_12] (JStr add_nocolon) (JStr ''again'')
                     (snd first)
      in fst first
           = Inr (failure (''Syntax Error:'' @ [nl] @ ''Syntax Error at line 1: invalid syntax''))
       \<and> previous_code (snd first) = Some (JStr add_nocolon)
       \<and> fst second = Inr ((failure duplicate_warning)\<lparr>v_duplicate_submission := True\<rparr>)
       \<and> events (snd second) = events (snd first)
       \<and> run_code_tool add_python [test_12] (JStr []) (JStr ''none'') (snd first)
           = (Inr (failure ''No code provided''), snd first))"
proof -
  have ne: "add_nocolon \<noteq> []"
    by (simp add: add_nocolon_def)
  have nd: "same_as_previous fresh_tool (JStr add_nocolon) = Inr False"
    by (rule same_as_previous_fresh)
  have h: "py_compile add_python add_nocolon
             = CompileSyntaxError (Some 1) (Some 14) ''invalid syntax''"
    by (simp add: add_python_def add_meaning_nocolon nocolon_not_nul)
  show ?thesis
    using ne nd h
      invalid_candidate_recorded [OF ne nd h, of "[test_12]" "JStr ''fix''" "JStr ''again''"
        "JStr ''none''"
        "snd (run_code_tool add_python [test_12] (JStr add_nocolon) (JStr ''fix'') fresh_tool)"]
    by (simp add: Let_def str_lineno_def str_nat.simps)
qed

text \<open>
  C2. The claim is that a verdict is accepted if and only if \<open>tests_total > 0\<close>,
  \<open>tests_passed = tests_total\<close> and the candidate ran without a fault, so that a
  call with no assertion is never accepted. The tool has a branch of its own for an
  empty assertion list (\<open>No tests - just validate it runs\<close>): there a candidate that
  runs cleanly is accepted, with no test counts.
\<close>

theorem zero_assertions_accepted:
  "fst (run_code_tool add_python [] (JStr add_plus) (JStr ''fix'') fresh_tool) = Inr runs_clean
   \<and> success runs_clean
   \<and> tests_total runs_clean = 0"
proof -
  have v: "validate_code add_python (JStr add_plus) = (True, [])"
    by (simp add: validate_code_def add_python_def add_meaning_plus)
  have e: "execute_code add_python (JStr add_plus) [''pass'']
     = Inr \<lparr>r_success = True, r_output = [], r_error = None, r_tests_passed = 1,
            r_tests_total = 1, r_failed_tests = [],
            r_passed_tests = [\<lparr>pt_number = 1, pt_test = ''pass'', pt_status = ''PASSED''\<rparr>]\<rparr>"
    by (simp add: execute_code_def run_test_def Let_def add_python_def add_meaning_plus
          test_12_def test_00_def)
  show ?thesis
    by (simp add: run_code_tool_admitted [OF add_nonempty(2) same_as_previous_fresh] v
          run_against_tests_def e Let_def runs_clean_def tests_total_def)
qed

text \<open>
  C2, as the code has it, for every verdict the tool returns. With assertions, the
  verdict is accepted if and only if \<open>tests_total > 0\<close> and
  \<open>tests_passed = tests_total\<close>. Without assertions, it is accepted if and only if
  the candidate is a string, not empty, not caught by the duplicate guard, compiles,
  runs without a fault, defines a function that is in the namespace it leaves, and
  the statement \<open>pass\<close> runs there. Either way an accepted candidate ran without a
  fault.
\<close>

theorem accepted_iff:
  assumes "fst (run_code_tool py tcs code r s) = Inr v"
  shows "(success v \<longleftrightarrow>
      (if tcs \<noteq> []
       then 0 < tests_total v \<and> tests_passed v = tests_total v
       else \<exists>c. code = JStr c \<and> c \<noteq> [] \<and> same_as_previous s code = Inr False
            \<and> py_compile py c = CompileOk
            \<and> (\<exists>fn ns out. py_ast_parse py c = ParseOk (Some fn) \<and> fn \<noteq> []
                  \<and> py_exec py (initial_namespace py) c = ExecOk ns out
                  \<and> py_in_namespace py ns fn
                  \<and> py_exec_test py ns ''pass'' = TestPassed)))
   \<and> (success v \<longrightarrow>
        (\<exists>c ns out. code = JStr c \<and> py_exec py (initial_namespace py) c = ExecOk ns out))"
proof (cases "tcs = []")
  case True
  then show ?thesis
    using run_code_tool_no_tests [of py code r s v] run_code_tool_success_executed [OF assms]
      assms
    by simp
next
  case False
  then show ?thesis
    using run_code_tool_tests [OF False assms] run_code_tool_success_executed [OF assms]
    by simp
qed

theorem accepted_iff_witness:
  "fst (run_code_tool add_python [test_12] (JStr add_plus) (JStr ''fix'') fresh_tool)
     = Inr \<lparr>success = True, v_error = None, v_message = Some ''SUCCESS! All 1 tests passed!'',
            v_tests_passed = Some 1, v_tests_total = Some 1, v_failed_count = None,
            v_failed_tests = None, v_duplicate_submission = False\<rparr>
   \<and> (\<exists>c ns out. JStr add_plus = JStr c
         \<and> py_exec add_python (initial_namespace add_python) c = ExecOk ns out)"
  using add_plus_accepted accepted_iff [OF add_plus_accepted]
  by simp

text \<open>
  C8. The candidate \<open>def add(a,b): return a-b\<close> against \<open>assert add(1,2)==3\<close>, on
  any interpreter that answers as Python does here: the candidate compiles and
  runs, \<open>add\<close> is found, the assertion fails, \<open>add(1,2)\<close> evaluates to \<open>-1\<close> and \<open>3\<close>
  to \<open>3\<close>. The executor counts 0 of 1 tests passed, and its failure entry carries
  \<open>actual = -1\<close> and \<open>expected = 3\<close>: the two expressions evaluated are the sides
  of the assertion text around \<open>==\<close>. The verdict of the tool is not accepted, with
  the same counts.
\<close>

theorem add_scenario:
  assumes "py_compile py ''def add(a,b): return a-b'' = CompileOk"
      and "py_ast_parse py ''def add(a,b): return a-b'' = ParseOk (Some ''add'')"
      and "py_exec py (initial_namespace py) ''def add(a,b): return a-b'' = ExecOk ns out"
      and "py_in_namespace py ns ''add''"
      and "py_exec_test py ns ''assert add(1,2)==3'' = TestAssertionError"
      and "py_eval py ns ''assert add(1,2)==3'' ''add(1,2)'' = EvalValue (PyInt (- 1))"
      and "py_eval py ns ''assert add(1,2)==3'' ''3'' = EvalValue (PyInt 3)"
  shows "(\<exists>res. execute_code py (JStr ''def add(a,b): return a-b'') [''assert add(1,2)==3'']
                  = Inr res
            \<and> r_tests_passed res = 0
            \<and> r_tests_total res = 1
            \<and> r_failed_tests res
                = [\<lparr>ft_number = 1, ft_test = ''assert add(1,2)==3'', ft_status = ''FAILED'',
                    ft_error = ''Expected 3, but got -1'', ft_type = ''AssertionError'',
                    ft_expected = Some (PyInt 3), ft_actual = Some (PyInt (- 1))\<rparr>])
       \<and> (\<exists>v. fst (run_code_tool py [''assert add(1,2)==3'']
                      (JStr ''def add(a,b): return a-b'') r fresh_tool) = Inr v
            \<and> \<not> success v
            \<and> v_tests_passed v = Some 0
            \<and> v_tests_total v = Some 1
            \<and> v_failed_tests v = Some [(''assert add(1,2)==3'', ''Expected 3, but got -1'')])"
proof -
  have dec: "actual_expected py ns ''assert add(1,2)==3'' = Inr (PyInt (- 1), PyInt 3)"
    using assms(6,7)
    by (simp add: actual_expected_def replace_def split_def starts_with_def strip_def
          isspace_def)
  have ex: "execute_code py (JStr ''def add(a,b): return a-b'') [''assert add(1,2)==3'']
      = Inr \<lparr>r_success = True, r_output = out,
         r_error = Some (''Test 1: assert add(1,2)==3'' @ [nl] @ ''  Expected 3, but got -1''),
         r_tests_passed = 0, r_tests_total = 1,
         r_failed_tests = [\<lparr>ft_number = 1, ft_test = ''assert add(1,2)==3'', ft_status = ''FAILED'',
               ft_error = ''Expected 3, but got -1'', ft_type = ''AssertionError'',
               ft_expected = Some (PyInt 3), ft_actual = Some (PyInt (- 1))\<rparr>],
         r_passed_tests = []\<rparr>"
    using assms(2-5)
    by (simp add: execute_code_def run_test_def dec Let_def failure_summary_def str_int_def
          str_nat.simps)
  have v: "validate_code py (JStr ''def add(a,b): return a-b'') = (True, [])"
    using assms(1) by (simp add: validate_code_def)
  have ne: "''def add(a,b): return a-b'' \<noteq> []"
    by simp
  show ?thesis
    by (simp add: ex run_code_tool_admitted [OF ne same_as_previous_fresh] v
          run_against_tests_def Let_def)
qed

theorem add_scenario_witness:
  "py_compile add_python ''def add(a,b): return a-b'' = CompileOk
   \<and> py_ast_parse add_python ''def add(a,b): return a-b'' = ParseOk (Some ''add'')
   \<and> py_exec add_python (initial_namespace add_python) ''def add(a,b): return a-b''
       = ExecOk (\<lambda>a b. a - b) []
   \<and> py_in_namespace add_python (\<lambda>a b. a - b) ''add''
   \<and> py_exec_test add_python (\<lambda>a b. a - b) ''assert add(1,2)==3'' = TestAssertionError
   \<and> py_eval add_python (\<lambda>a b. a - b) ''assert add(1,2)==3'' ''add(1,2)''
       = EvalValue (PyInt (- 1))
   \<and> py_eval add_python (\<lambda>a b. a - b) ''assert add(1,2)==3'' ''3'' = EvalValue (PyInt 3)
   \<and> (\<exists>res. execute_code add_python (JStr ''def add(a,b): return a-b'')
               [''assert add(1,2)==3''] = Inr res
         \<and> r_tests_passed res = 0
         \<and> r_tests_total res = 1
         \<and> map ft_actual (r_failed_tests res) = [Some (PyInt (- 1))]
         \<and> map ft_expected (r_failed_tests res) = [Some (PyInt 3)])
   \<and> (\<exists>v. fst (run_code_tool add_python [''assert add(1,2)==3'']
                   (JStr ''def add(a,b): return a-b'') (JStr ''fix'') fresh_tool) = Inr v
         \<and> \<not> success v)"
proof -
  have m: "add_meaning ''def add(a,b): return a-b'' = Some (\<lambda>a b. a - b)"
    by (simp add: add_meaning_def add_minus_def)
  have h1: "py_compile add_python ''def add(a,b): return a-b'' = CompileOk"
    by (simp add: add_python_def m)
  have h2: "py_ast_parse add_python ''def add(a,b): return a-b'' = ParseOk (Some ''add'')"
    by (simp add: add_python_def m)
  have h3: "py_exec add_python (initial_namespace add_python) ''def add(a,b): return a-b''
              = ExecOk (\<lambda>a b. a - b) []"
    by (simp add: add_python_def m)
  have h4: "py_in_namespace add_python (\<lambda>a b. a - b) ''add''"
    by (simp add: add_python_def)
  have h5: "py_exec_test add_python (\<lambda>a b. a - b) ''assert add(1,2)==3'' = TestAssertionError"
    by (simp add: add_python_def test_12_def)
  have h6: "py_eval add_python (\<lambda>a b. a - b) ''assert add(1,2)==3'' ''add(1,2)''
              = EvalValue (PyInt (- 1))"
    by (simp add: add_python_def)
  have h7: "py_eval add_python (\<lambda>a b. a - b) ''assert add(1,2)==3'' ''3'' = EvalValue (PyInt 3)"
    by (simp add: add_python_def)
  show ?thesis
    using h1 h2 h3 h4 h5 h6 h7 add_scenario [OF h1 h2 h3 h4 h5 h6 h7, of "JStr ''fix''"]
    by auto
qed

section \<open>The repair loop: requests to the service\<close>

lemma upt_max_retries: "[0..<max_retries] = [0, 1, 2]"
  by (simp add: max_retries_def numeral_3_eq_3 numeral_2_eq_2)

lemma upt_api_retry_count: "[0..<api_retry_count] = [0, 1, 2]"
  by (simp add: api_retry_count_def numeral_3_eq_3 numeral_2_eq_2)

lemma observe_fields [simp]:
  "messages (observe a m l st) = messages st"
  "final_code (observe a m l st) = final_code st"
  "consecutive_failures (observe a m l st) = consecutive_failures st"
  "api_calls (observe a m l st) = api_calls st"
  "previous_code (tool (observe a m l st)) = previous_code (tool st)"
  "events (tool (observe a m l st)) = events (tool st)"
  by (simp_all add: observe_def)

lemma api_loop_result:
  assumes "api_loop svc req [0..<api_retry_count] n = (res, n')"
  shows "(\<exists>m k. res = Inr (Some m) \<and> svc k req = ApiResponse m \<and> n < n')
       \<or> ((\<exists>e. res = Inl (Caught e)) \<and> n' = n + 3
           \<and> (\<forall>k. n \<le> k \<and> k < n + 3 \<longrightarrow> fails_at svc k))
       \<or> ((\<exists>e. res = Inl (Uncaught e)) \<and> n < n' \<and> (\<exists>k. \<not> api_returns (svc k req)))"
proof -
  have three: "\<And>k. n \<le> k \<Longrightarrow> k < n + 3 \<Longrightarrow> k = n \<or> k = Suc n \<or> k = Suc (Suc n)"
    by arith
  have a: "api_loop svc req [0, 1, 2] n = (res, n')"
    using assms by (simp only: upt_api_retry_count)
  have esc: "\<exists>k. \<not> api_returns (svc k req)"
    if "(\<exists>e. svc j req = ApiEscapes e) \<or> svc j req = ApiHangs" for j
    using that by (intro exI [of _ j]) auto
  show ?thesis
  proof (cases "svc n req")
    case (ApiResponse m)
    then show ?thesis using a by auto
  next
    case (ApiEscapes e)
    then show ?thesis using a esc [of n] by auto
  next
    case ApiHangs
    then show ?thesis using a esc [of n] by auto
  next
    case e0: (ApiError e)
    then have f0: "fails_at svc n" by (auto simp: fails_at_def)
    have a1: "api_loop svc req [1, 2] (Suc n) = (res, n')"
      using a e0 by (simp add: api_retry_count_def)
    show ?thesis
    proof (cases "svc (Suc n) req")
      case (ApiResponse m)
      then show ?thesis using a1 by auto
    next
      case (ApiEscapes e)
      then show ?thesis using a1 esc [of "Suc n"] by auto
    next
      case ApiHangs
      then show ?thesis using a1 esc [of "Suc n"] by auto
    next
      case e1: (ApiError e')
      then have f1: "fails_at svc (Suc n)" by (auto simp: fails_at_def)
      have a2: "api_loop svc req [2] (Suc (Suc n)) = (res, n')"
        using a1 e1 by (simp add: api_retry_count_def)
      show ?thesis
      proof (cases "svc (Suc (Suc n)) req")
        case (ApiResponse m)
        then show ?thesis using a2 by auto
      next
        case (ApiEscapes e)
        then show ?thesis using a2 esc [of "Suc (Suc n)"] by auto
      next
        case ApiHangs
        then show ?thesis using a2 esc [of "Suc (Suc n)"] by auto
      next
        case e2: (ApiError e'')
        then have f2: "fails_at svc (Suc (Suc n))" by (auto simp: fails_at_def)
        have "res = Inl (Caught e'')" "n' = n + 3"
          using a2 e2 by (simp_all add: api_retry_count_def)
        moreover have "\<forall>k. n \<le> k \<and> k < n + 3 \<longrightarrow> fails_at svc k"
          using f0 f1 f2 three by blast
        ultimately show ?thesis by blast
      qed
    qed
  qed
qed

lemma try_request_fields:
  assumes "try_request svc ncl i st = (res, st')"
  shows "messages st' = messages st" and "final_code st' = final_code st"
    and "consecutive_failures st' = consecutive_failures st"
    and "previous_code (tool st') = previous_code (tool st)"
    and "events (tool st') = events (tool st) @ map Requested [api_calls st..<api_calls st']"
  using assms by (auto simp: try_request_def get_next_client_def Let_def)

lemma try_request_result:
  assumes "try_request svc ncl i st = (res, st')"
  shows "(\<exists>m k req. res = Inr (Some m) \<and> svc k req = ApiResponse m \<and> api_calls st < api_calls st')
       \<or> ((\<exists>e. res = Inl (Caught e)) \<and> api_calls st' = api_calls st + 3
           \<and> (\<forall>k. api_calls st \<le> k \<and> k < api_calls st + 3 \<longrightarrow> fails_at svc k))
       \<or> ((\<exists>e. res = Inl (Uncaught e)) \<and> api_calls st < api_calls st'
           \<and> (\<exists>k req. \<not> api_returns (svc k req)))"
proof -
  let ?st1 = "snd (get_next_client ncl st)"
  let ?req = "\<lparr>req_client = fst (get_next_client ncl st), req_messages = messages ?st1,
               req_temperature = temperature i (consecutive_failures ?st1)\<rparr>"
  have a: "api_loop svc ?req [0..<api_retry_count] (api_calls st) = (res, api_calls st')"
    using assms by (auto simp: try_request_def get_next_client_def Let_def)
  from api_loop_result [OF a] show ?thesis by blast
qed

lemma retry_loop_else:
  "retry_loop svc ncl i atts st = (RetryElse, st') \<Longrightarrow> max_retries - 1 \<notin> set atts"
proof (induction atts arbitrary: st)
  case Nil
  then show ?case by simp
next
  case (Cons a rest)
  then show ?case
    by (auto simp: Let_def split: sum.splits if_splits prod.splits raised.splits)
qed

lemma retry_loop_none:
  "retry_loop svc ncl i atts st = (RetryBreak None, st') \<Longrightarrow>
     (\<forall>k. api_calls st \<le> k \<and> k < api_calls st' \<longrightarrow> fails_at svc k)
     \<and> api_calls st' = api_calls st
          + 3 * (length (takeWhile (\<lambda>a. a \<noteq> max_retries - 1) atts) + 1)"
proof (induction atts arbitrary: st)
  case Nil
  then show ?case by simp
next
  case (Cons a rest)
  obtain res st2 where t: "try_request svc ncl i st = (res, st2)"
    by (cases "try_request svc ncl i st") auto
  from try_request_result [OF t]
  consider (answer) "\<exists>m k req. res = Inr (Some m) \<and> svc k req = ApiResponse m
                       \<and> api_calls st < api_calls st2"
    | (caught) "(\<exists>e. res = Inl (Caught e)) \<and> api_calls st2 = api_calls st + 3
               \<and> (\<forall>k. api_calls st \<le> k \<and> k < api_calls st + 3 \<longrightarrow> fails_at svc k)"
    | (uncaught) "\<exists>e. res = Inl (Uncaught e)"
    by blast
  then show ?case
  proof cases
    case answer
    then show ?thesis
      using Cons.prems t by auto
  next
    case uncaught
    then show ?thesis
      using Cons.prems t by auto
  next
    case f: caught
    then obtain e where e: "res = Inl (Caught e)" by blast
    show ?thesis
    proof (cases "a = max_retries - 1")
      case True
      then show ?thesis
        using Cons.prems t f e by (auto simp: Let_def)
    next
      case False
      define st3 where "st3 = observe ''API_ERROR''
         (''Together AI API Error (attempt '' @ str_nat (a + 1) @ ''/'' @ str_nat max_retries
           @ ''): '' @ e) ''ERROR'' st2"
      have rec: "retry_loop svc ncl i rest st3 = (RetryBreak None, st')"
        using Cons.prems t e False by (simp add: Let_def st3_def)
      have c3: "api_calls st3 = api_calls st + 3"
        using f by (simp add: st3_def)
      note ih = Cons.IH [OF rec]
      have "fails_at svc k" if "api_calls st \<le> k" and "k < api_calls st'" for k
      proof (cases "k < api_calls st + 3")
        case True
        then show ?thesis using f that by blast
      next
        case False
        then show ?thesis using ih c3 that by simp
      qed
      moreover have "api_calls st' = api_calls st
          + 3 * (length (takeWhile (\<lambda>a. a \<noteq> max_retries - 1) (a # rest)) + 1)"
        using ih c3 False by simp
      ultimately show ?thesis by blast
    qed
  qed
qed

lemma retry_loop_fields:
  "retry_loop svc ncl i atts st = (ex, st') \<Longrightarrow>
     messages st' = messages st \<and> final_code st' = final_code st
     \<and> consecutive_failures st' = consecutive_failures st
     \<and> previous_code (tool st') = previous_code (tool st)
     \<and> api_calls st \<le> api_calls st'
     \<and> events (tool st') = events (tool st) @ map Requested [api_calls st..<api_calls st']"
proof (induction atts arbitrary: st)
  case Nil
  then show ?case by simp
next
  case (Cons a rest)
  obtain res st2 where t: "try_request svc ncl i st = (res, st2)"
    by (cases "try_request svc ncl i st") auto
  note tf = try_request_fields [OF t]
  have le2: "api_calls st \<le> api_calls st2"
    using try_request_result [OF t] by auto
  consider (answer) response where "res = Inr response"
    | (uncaught) e where "res = Inl (Uncaught e)"
    | (caught) e where "res = Inl (Caught e)"
    by (cases res; cases "projl res") auto
  then show ?case
  proof cases
    case answer
    then show ?thesis
      using Cons.prems t tf le2 by auto
  next
    case uncaught
    then show ?thesis
      using Cons.prems t tf le2 by auto
  next
    case (caught e)
    define st3 where "st3 = observe ''API_ERROR''
         (''Together AI API Error (attempt '' @ str_nat (a + 1) @ ''/'' @ str_nat max_retries
           @ ''): '' @ e) ''ERROR'' st2"
    show ?thesis
    proof (cases "a = max_retries - 1")
      case True
      then show ?thesis
        using Cons.prems t tf le2 caught by (auto simp: Let_def)
    next
      case False
      have rec: "retry_loop svc ncl i rest st3 = (ex, st')"
        using Cons.prems t caught False by (simp add: Let_def st3_def)
      have le3: "api_calls st2 \<le> api_calls st'"
        using Cons.IH [OF rec] by (simp add: st3_def)
      have "[api_calls st..<api_calls st'] = [api_calls st..<api_calls st2] @ [api_calls st2..<api_calls st']"
        using le2 le3 by (metis le_Suc_ex upt_add_eq_append)
      then show ?thesis
        using Cons.IH [OF rec] tf le2 by (simp add: st3_def)
    qed
  qed
qed

lemma retry_loop_response:
  "retry_loop svc ncl i atts st = (RetryBreak (Some m), st') \<Longrightarrow> \<exists>k req. svc k req = ApiResponse m"
proof (induction atts arbitrary: st)
  case Nil
  then show ?case by simp
next
  case (Cons a rest)
  obtain res st2 where t: "try_request svc ncl i st = (res, st2)"
    by (cases "try_request svc ncl i st") auto
  show ?case
  proof (cases res)
    case (Inr response)
    then have "response = Some m"
      using Cons.prems t by simp
    then show ?thesis
      using try_request_result [OF t] Inr by blast
  next
    case (Inl e)
    then show ?thesis
      using Cons.prems Cons.IH t by (cases e) (auto simp: Let_def split: if_splits)
  qed
qed

lemma retry_loop_raise:
  "retry_loop svc ncl i atts st = (RetryRaise e, st') \<Longrightarrow> \<exists>k req. \<not> api_returns (svc k req)"
proof (induction atts arbitrary: st)
  case Nil
  then show ?case by simp
next
  case (Cons a rest)
  obtain res st2 where t: "try_request svc ncl i st = (res, st2)"
    by (cases "try_request svc ncl i st") auto
  show ?case
  proof (cases res)
    case (Inr response)
    then show ?thesis
      using Cons.prems t by simp
  next
    case (Inl x)
    show ?thesis
    proof (cases x)
      case (Uncaught e')
      then show ?thesis
        using try_request_result [OF t] Inl by auto
    next
      case (Caught e')
      then show ?thesis
        using Cons.prems Cons.IH t Inl by (auto simp: Let_def split: if_splits)
    qed
  qed
qed



section \<open>The repair loop: acceptance\<close>

lemma run_code_tool_success:
  assumes "fst (run_code_tool py tcs code r s) = Inr v" and "success v"
  shows "\<exists>c ts. code = JStr c \<and> c \<noteq> []
           \<and> events (snd (run_code_tool py tcs code r s))
               = events s @ [Validated code, Executed code ts]"
proof -
  from run_code_tool_accepts [OF assms] obtain c where
    c: "code = JStr c" "c \<noteq> []"
       "run_code_tool py tcs code r s = run_against_tests py tcs code (admitted s c)"
    by blast
  from run_against_tests_state(2) [of py tcs code "admitted s c"] c
  show ?thesis by auto
qed

lemma call_run_code_fields:
  assumes "call_run_code py tcs tc kv st = (res, st3)"
  shows "res = fst (run_code_tool py tcs (get_arg kv ''code'' (JStr []))
                   (get_arg kv ''reason'' (JStr ''No reason provided'')) (tool st))"
    and "tool st3 = snd (run_code_tool py tcs (get_arg kv ''code'' (JStr []))
                   (get_arg kv ''reason'' (JStr ''No reason provided'')) (tool st))"
    and "api_calls st3 = api_calls st"
    and "\<And>v. res = Inr v \<Longrightarrow> messages st3 = messages st @ [ToolMsg (tc_id tc) (tc_name tc) v]"
    and "\<And>v. res = Inr v \<Longrightarrow>
           final_code st3 = (if truthy (get_arg kv ''code'' (JStr []))
                             then Some (get_arg kv ''code'' (JStr [])) else final_code st)"
    and "\<And>e. res = Inl e \<Longrightarrow> messages st3 = messages st"
  using assms by (auto simp: call_run_code_def Let_def split: sum.splits)

lemma process_tool_calls_accept:
  assumes "process_tool_calls py vb tcs buggy calls st = (fl, st')"
      and "\<forall>m\<in>set (messages st). \<not> accepted m"
  shows "case fl of
           Return j \<Rightarrow>
             (\<exists>c ms i n v ts. j = JStr c \<and> messages st' = ms @ [ToolMsg i n v] \<and> success v
                \<and> (\<exists>r s. fst (run_code_tool py tcs (JStr c) r s) = Inr v)
                \<and> (\<forall>m\<in>set ms. \<not> accepted m)
                \<and> events (tool st') \<noteq> [] \<and> last (events (tool st')) = Executed (JStr c) ts)
         | _ \<Rightarrow> (\<forall>m\<in>set (messages st'). \<not> accepted m)"
  using assms
proof (induction calls arbitrary: st)
  case Nil
  then show ?case by auto
next
  case (Cons tc rest)
  show ?case
  proof (cases "tc_arguments tc")
    case None
    then show ?thesis using Cons.prems by auto
  next
    case (Some args)
    show ?thesis
    proof (cases "\<exists>kv. args = JObj kv")
      case False
      then have "fl = Raise AttributeError \<and> st' = st
                 \<or> process_tool_calls py vb tcs buggy rest st = (fl, st')"
        using Cons.prems(1) Some by (cases args) (auto split: if_splits)
      then show ?thesis
        using Cons.prems(2) Cons.IH [of st] by auto
    next
      case True
      then obtain kv where kv: "args = JObj kv" by blast
      show ?thesis
      proof (cases "tc_name tc = ''run_code''")
        case False
        then show ?thesis
          using Cons.prems Some kv Cons.IH [of st] by simp
      next
        case rc: True
        obtain res st3 where c: "call_run_code py tcs tc kv st = (res, st3)"
          by (cases "call_run_code py tcs tc kv st") auto
        note cf = call_run_code_fields [OF c]
        show ?thesis
        proof (cases res)
          case (Inl e)
          then have "fl = Raise e" "st' = st3"
            using Cons.prems(1) Some kv rc c by auto
          then show ?thesis
            using cf(6) [OF Inl] Cons.prems(2) by simp
        next
          case (Inr v)
          show ?thesis
          proof (cases "success v")
            case True
            have rv: "fst (run_code_tool py tcs (get_arg kv ''code'' (JStr []))
                   (get_arg kv ''reason'' (JStr ''No reason provided'')) (tool st)) = Inr v"
              using cf(1) Inr by simp
            from run_code_tool_success [OF rv True] obtain code ts where
              code: "get_arg kv ''code'' (JStr []) = JStr code" "code \<noteq> []"
              and ts: "events (tool st3) = events (tool st) @ [Validated (JStr code),
                                  Executed (JStr code) ts]"
              using cf(2) by auto
            have fc: "final_code st3 = Some (JStr code)"
              using cf(5) [OF Inr] code by simp
            have fl: "fl = Return (JStr code)"
              and st': "st' = observe ''FIX_SUCCESS'' ''Code fix completed - all tests passed''
                               ''SUCCESS'' st3"
              using Cons.prems(1) Some kv rc c Inr True fc code(2) by auto
            have "\<exists>r s. fst (run_code_tool py tcs (JStr code) r s) = Inr v"
              using rv code(1) by auto
            then show ?thesis
              using fl st' cf(4) [OF Inr] True ts Cons.prems(2) by auto
          next
            case False
            have rec: "process_tool_calls py vb tcs buggy rest
                     (st3\<lparr>consecutive_failures := consecutive_failures st3 + 1\<rparr>) = (fl, st')"
              using Cons.prems(1) Some kv rc c Inr False by simp
            have inv: "\<forall>m\<in>set (messages (st3\<lparr>consecutive_failures :=
                          consecutive_failures st3 + 1\<rparr>)). \<not> accepted m"
              using Cons.prems(2) cf(4) [OF Inr] False by auto
            from Cons.IH [OF rec inv] show ?thesis .
          qed
        qed
      qed
    qed
  qed
qed

lemma agent_loop_accept:
  assumes "agent_loop py svc vb tcs buggy ncl iters st = (fl, st')"
      and "\<forall>m\<in>set (messages st). \<not> accepted m"
  shows "case fl of
           Return j \<Rightarrow>
             (\<exists>c ms i n v ts. j = JStr c \<and> messages st' = ms @ [ToolMsg i n v] \<and> success v
                \<and> (\<exists>r s. fst (run_code_tool py tcs (JStr c) r s) = Inr v)
                \<and> (\<forall>m\<in>set ms. \<not> accepted m)
                \<and> events (tool st') \<noteq> [] \<and> last (events (tool st')) = Executed (JStr c) ts)
         | _ \<Rightarrow> (\<forall>m\<in>set (messages st'). \<not> accepted m)"
  using assms
proof (induction iters arbitrary: st)
  case Nil
  then show ?case by auto
next
  case (Cons i rest)
  obtain ex st1 where r: "retry_loop svc ncl i [0..<max_retries] st = (ex, st1)"
    by (cases "retry_loop svc ncl i [0..<max_retries] st") auto
  have m1: "messages st1 = messages st"
    using retry_loop_fields [OF r] by simp
  show ?case
  proof (cases ex)
    case RetryElse
    then show ?thesis using Cons.prems r m1 by auto
  next
    case (RetryRaise e)
    then show ?thesis using Cons.prems r m1 by auto
  next
    case (RetryBreak response)
    show ?thesis
    proof (cases response)
      case None
      then show ?thesis using Cons.prems r m1 RetryBreak by auto
    next
      case (Some m)
      define st2 where "st2 = st1\<lparr>messages := messages st1 @ [AssistantMsg m]\<rparr>"
      have inv2: "\<forall>x\<in>set (messages st2). \<not> accepted x"
        using Cons.prems(2) m1 by (auto simp: st2_def)
      show ?thesis
      proof (cases "tool_calls m = []")
        case True
        show ?thesis
        proof (cases "i = 0")
          case True
          have rec: "agent_loop py svc vb tcs buggy ncl rest
                       (st2\<lparr>messages := messages st2 @ [ForcePrompt]\<rparr>) = (fl, st')"
            using Cons.prems(1) r RetryBreak Some \<open>tool_calls m = []\<close> True
            by (simp add: st2_def Let_def)
          show ?thesis
            using Cons.IH [OF rec] inv2 by simp
        next
          case False
          then show ?thesis
            using Cons.prems(1) r RetryBreak Some True inv2 by (auto simp: st2_def Let_def)
        qed
      next
        case False
        obtain fl3 st3 where p: "process_tool_calls py vb tcs buggy (tool_calls m)
                                   (st2\<lparr>tool_was_called := True\<rparr>) = (fl3, st3)"
          by (cases "process_tool_calls py vb tcs buggy (tool_calls m)
                       (st2\<lparr>tool_was_called := True\<rparr>)") auto
        have inv3: "\<forall>x\<in>set (messages (st2\<lparr>tool_was_called := True\<rparr>)). \<not> accepted x"
          using inv2 by simp
        note pa = process_tool_calls_accept [OF p inv3]
        show ?thesis
        proof (cases "fl3 = Next")
          case True
          have rec: "agent_loop py svc vb tcs buggy ncl rest st3 = (fl, st')"
            using Cons.prems(1) r RetryBreak Some False p True by (simp add: st2_def Let_def)
          show ?thesis
            using Cons.IH [OF rec] pa True by simp
        next
          case nn: False
          have "(fl, st') = (fl3, st3)"
            using Cons.prems(1) r RetryBreak Some False p nn
            by (cases fl3) (simp_all add: st2_def Let_def)
          then have e: "fl = fl3" "st' = st3"
            by simp_all
          show ?thesis
            unfolding e by (rule pa)
        qed
      qed
    qed
  qed
qed

lemma initial_session_fields:
  "messages (initial_session self buggy tcs tid) = [SystemPrompt, UserPrompt buggy tcs]"
  "final_code (initial_session self buggy tcs tid) = None"
  "api_calls (initial_session self buggy tcs tid) = 0"
  "events (tool (initial_session self buggy tcs tid)) = []"
  "previous_code (tool (initial_session self buggy tcs tid)) = None"
  by (simp_all add: initial_session_def)

lemma fix_code_cases:
  assumes "agent_loop py svc (verbose self) tcs buggy (clients self) [0..<max_iterations self]
             (initial_session self buggy tcs tid) = (fl, st)"
  shows "fl = Return c \<Longrightarrow> fix_code py svc self buggy tcs tid = (Inr c, st)"
    and "fl = Raise e \<Longrightarrow> fix_code py svc self buggy tcs tid = (Inl e, st)"
    and "fl = Next \<or> fl = Break \<Longrightarrow>
           messages (snd (fix_code py svc self buggy tcs tid)) = messages st
           \<and> events (tool (snd (fix_code py svc self buggy tcs tid))) = events (tool st)
           \<and> api_calls (snd (fix_code py svc self buggy tcs tid)) = api_calls st"
    and "fl = Next \<or> fl = Break \<Longrightarrow> final_code st = None \<or> (\<exists>c. final_code st = Some (JStr c))
           \<Longrightarrow> fst (fix_code py svc self buggy tcs tid)
               = Inr (JStr (case final_code st of
                        Some (JStr c) \<Rightarrow> if length c > 20 then c else buggy
                      | _ \<Rightarrow> buggy))"
  using assms by (auto simp: fix_code_def split: option.splits)

lemma accept_run_facts:
  "(let res = accept_run in
      (\<exists>m\<in>set (messages (snd res)). accepted m) \<and> fst res = Inr (JStr add_plus))"
  by code_simp

text \<open>
  C5. When a verdict in the transcript of a session is accepted, \<open>fix_code\<close> returns
  a source, and this source is a string; the accepted verdict is the last message
  of the transcript and the only accepted one (the session stops there); it is the
  verdict the tool gave for the returned source; and the last run the tool made is
  the run of the returned source. So the source returned is exactly the one that
  produced the accepted verdict.
\<close>

theorem accepted_returns_candidate:
  assumes "\<exists>m\<in>set (messages (snd (fix_code py svc self buggy tcs tid))). accepted m"
  shows "\<exists>c ms i n v ts.
           fst (fix_code py svc self buggy tcs tid) = Inr (JStr c)
         \<and> messages (snd (fix_code py svc self buggy tcs tid)) = ms @ [ToolMsg i n v]
         \<and> success v
         \<and> (\<exists>r s. fst (run_code_tool py tcs (JStr c) r s) = Inr v)
         \<and> (\<forall>m\<in>set ms. \<not> accepted m)
         \<and> last (events (tool (snd (fix_code py svc self buggy tcs tid)))) = Executed (JStr c) ts"
proof -
  obtain fl st where a: "agent_loop py svc (verbose self) tcs buggy (clients self)
             [0..<max_iterations self] (initial_session self buggy tcs tid) = (fl, st)"
    by (cases "agent_loop py svc (verbose self) tcs buggy (clients self)
             [0..<max_iterations self] (initial_session self buggy tcs tid)") auto
  have inv: "\<forall>m\<in>set (messages (initial_session self buggy tcs tid)). \<not> accepted m"
    by (simp add: initial_session_fields)
  note acc = agent_loop_accept [OF a inv]
  note fc = fix_code_cases [OF a]
  show ?thesis
  proof (cases fl)
    case (Return c)
    then show ?thesis
      using acc fc(1) [OF Return] by auto blast
  next
    case (Raise e)
    then show ?thesis
      using acc fc(2) [OF Raise] assms by auto
  next
    case Break
    then show ?thesis
      using acc fc(3) assms by auto
  next
    case Next
    then show ?thesis
      using acc fc(3) assms by auto
  qed
qed

theorem accepted_returns_candidate_witness:
  "(\<exists>m\<in>set (messages (snd accept_run)). accepted m)
   \<and> fst accept_run = Inr (JStr add_plus)
   \<and> (\<exists>c ms i n v ts.
         fst accept_run = Inr (JStr c)
       \<and> messages (snd accept_run) = ms @ [ToolMsg i n v]
       \<and> success v
       \<and> (\<exists>r s. fst (run_code_tool add_python [test_12] (JStr c) r s) = Inr v)
       \<and> (\<forall>m\<in>set ms. \<not> accepted m)
       \<and> last (events (tool (snd accept_run))) = Executed (JStr c) ts)"
proof -
  have h: "\<exists>m\<in>set (messages (snd accept_run)). accepted m"
    and r: "fst accept_run = Inr (JStr add_plus)"
    using accept_run_facts by (simp_all add: Let_def)
  show ?thesis
    using h r accepted_returns_candidate [of add_python "scripted [submit add_minus, submit add_plus]"
        "test_agent 5" add_minus "[test_12]" "''task''"]
    unfolding accept_run_def by blast
qed

section \<open>The repair loop: the source returned\<close>












lemma text_state_logs [simp]: "text_state (s\<lparr>logs := l\<rparr>) = text_state s"
  by (simp add: text_state_def)













section \<open>The repair loop: a service that fails\<close>

lemma retry_loop_all_fail:
  assumes "\<forall>n req. \<exists>e. svc n req = ApiError e"
  shows "\<exists>st'. retry_loop svc ncl i [0..<max_retries] st = (RetryBreak None, st')"
proof -
  obtain ex st' where r: "retry_loop svc ncl i [0..<max_retries] st = (ex, st')"
    by (cases "retry_loop svc ncl i [0..<max_retries] st") auto
  have not_else: "ex \<noteq> RetryElse"
    using retry_loop_else [of svc ncl i "[0..<max_retries]" st st'] r
    by (auto simp: max_retries_def)
  have not_some: "ex \<noteq> RetryBreak (Some m)" for m
  proof
    assume "ex = RetryBreak (Some m)"
    then obtain k req where "svc k req = ApiResponse m"
      using retry_loop_response r by blast
    then show False
      using assms by (metis api_outcome.distinct(1))
  qed
  have not_raise: "ex \<noteq> RetryRaise e" for e
  proof
    assume "ex = RetryRaise e"
    then obtain k req where "\<not> api_returns (svc k req)"
      using retry_loop_raise r by blast
    moreover obtain e' where "svc k req = ApiError e'"
      using assms by blast
    ultimately show False by simp
  qed
  have "ex = RetryBreak None"
  proof (cases ex)
    case (RetryBreak response)
    then show ?thesis
      using not_some by (cases response) auto
  next
    case RetryElse
    then show ?thesis using not_else by simp
  next
    case (RetryRaise e)
    then show ?thesis using not_raise by simp
  qed
  then show ?thesis using r by blast
qed

text \<open>
  C9. The claim is that a session ending without an accepted verdict, also when all
  the retries of a request fail, returns the last submitted source if it is longer
  than 20 characters and the original source otherwise. For the sessions that end
  by running out of rounds or by an answer without tool call, the code does so.
  When every call to the service fails, the retry loop is left by the \<open>break\<close> of
  its last failed attempt, the \<open>else\<close> branch that would leave the outer loop
  (\<open>All retries failed\<close>) does not run, \<open>response\<close> is \<open>None\<close>, and \<open>fix_code\<close> raises
  \<open>AttributeError\<close> after nine calls instead of returning a source.
\<close>

theorem service_failure_raises:
  assumes "\<forall>n req. \<exists>e. svc n req = ApiError e" and "0 < max_iterations self"
  shows "fst (fix_code py svc self buggy tcs tid) = Inl AttributeError
       \<and> api_calls (snd (fix_code py svc self buggy tcs tid)) = max_retries * api_retry_count"
proof -
  have u: "[0..<max_iterations self] = 0 # [1..<max_iterations self]"
    using assms(2) by (simp add: upt_conv_Cons)
  obtain st' where r: "retry_loop svc (clients self) 0 [0..<max_retries]
                         (initial_session self buggy tcs tid) = (RetryBreak None, st')"
    using retry_loop_all_fail [OF assms(1)] by blast
  have "retry_loop svc (clients self) 0 [0, 1, 2]
          (initial_session self buggy tcs tid) = (RetryBreak None, st')"
    using r by (simp only: upt_max_retries)
  from retry_loop_none [OF this] have c: "api_calls st' = 9"
    by (simp add: initial_session_fields max_retries_def)
  have "fix_code py svc self buggy tcs tid = (Inl AttributeError, st')"
    by (simp add: fix_code_def u r)
  then show ?thesis
    using c by (simp add: max_retries_def api_retry_count_def)
qed

theorem service_failure_raises_witness:
  "(\<forall>n req. \<exists>e. unreachable_service n req = ApiError e)
   \<and> 0 < max_iterations (test_agent default_max_iterations)
   \<and> fst down_run = Inl AttributeError
   \<and> api_calls (snd down_run) = 9"
proof -
  have a: "\<forall>n req. \<exists>e. unreachable_service n req = ApiError e"
    by (simp add: unreachable_service_def)
  have b: "0 < max_iterations (test_agent default_max_iterations)"
    by (simp add: test_agent_def default_max_iterations_def)
  show ?thesis
    using a b service_failure_raises [OF a b, of add_python add_minus "[test_12]" "''task''"]
    unfolding down_run_def by (simp add: max_retries_def api_retry_count_def)
qed

section \<open>The repair loop: the iteration budget\<close>













end
